theory Spec2Isabelle
  imports
    Complex_Main
    "HOL-Library.Sublist"
    "HOL-Library.Char_ord"
    "HOL-Library.List_Lexorder"
    "HOL-Library.Multiset"
begin

section \<open>JavaScript values and errors\<close>

text \<open>
  The back end is JavaScript. A value is one of the JSON-like shapes below; numbers are
  restricted to integers that print in decimal (fractional and non-finite numbers, and
  magnitudes from \<open>10^21\<close> on, are outside the model). A string is the list of its
  characters, each a code from 0 to 255. An object is the list of its own enumerable
  properties in the order \<open>Object.keys\<close> reports them. The keys of an object are
  distinct; on a list that repeats a key the operations below read and write its first
  entry.
\<close>

datatype jsval =
    JUndefined
  | JNull
  | JBool bool
  | JNum int
  | JStr string
  | JArr "jsval list"
  | JObj "(string \<times> jsval) list"

type_synonym js_object = "(string \<times> jsval) list"

text \<open>
  \<open>obj[key]\<close> for a key that names no member of \<open>Object.prototype\<close>: the value of
  the own property, \<open>undefined\<close> when there is none. The sources read objects this way
  with fixed field names and with the object's own keys; the one lookup with an arbitrary
  key in an object that may not have it, \<open>jsToSql[key]\<close>, is \<open>sqlKey_of\<close> below.
\<close>

definition js_get :: "js_object \<Rightarrow> string \<Rightarrow> jsval" where
  "js_get obj key = (case map_of obj key of None \<Rightarrow> JUndefined | Some v \<Rightarrow> v)"

text \<open>\<open>Object.keys(obj)\<close>.\<close>

definition js_keys :: "js_object \<Rightarrow> string list" where
  "js_keys obj = map fst obj"

text \<open>\<open>delete obj[key]\<close>.\<close>

definition js_delete :: "js_object \<Rightarrow> string \<Rightarrow> js_object" where
  "js_delete obj key = filter (\<lambda>kv. fst kv \<noteq> key) obj"

text \<open>\<open>obj[key] = v\<close>: an existing property keeps its place, a new one goes last.\<close>

fun js_set :: "js_object \<Rightarrow> string \<Rightarrow> jsval \<Rightarrow> js_object" where
  "js_set [] key v = [(key, v)]"
| "js_set ((k, w) # rest) key v =
     (if k = key then (k, v) # rest else (k, w) # js_set rest key v)"

text \<open>Truthiness, as \<open>if (x)\<close> and \<open>!x\<close> test it.\<close>

fun truthy :: "jsval \<Rightarrow> bool" where
  "truthy JUndefined = False"
| "truthy JNull = False"
| "truthy (JBool b) = b"
| "truthy (JNum n) = (n \<noteq> 0)"
| "truthy (JStr s) = (s \<noteq> [])"
| "truthy (JArr _) = True"
| "truthy (JObj _) = True"

text \<open>\<open>Array.isArray(x)\<close>.\<close>

fun is_array :: "jsval \<Rightarrow> bool" where
  "is_array (JArr _) = True"
| "is_array _ = False"

text \<open>
  The error classes of \<open>expressError.js\<close>, each with its message. An \<open>ExpressError\<close>
  built from a caught database error carries that error and the status given to the
  constructor (none in the company model, 500 elsewhere). \<open>DriverError\<close> is a database
  error that no handler wraps and \<open>RuntimeError\<close> an exception of the language or of a
  library (a \<open>TypeError\<close>, a \<open>ReferenceError\<close>, a rejection by the hashing library).
\<close>

datatype dberror = DbError string

datatype error =
    BadRequestError string
  | NotFoundError string
  | UnauthorizedError string
  | ExpressError string "nat option"
  | ExpressErrorDb dberror "nat option"
  | DriverError dberror
  | RuntimeError string

section \<open>The partial-update builder (helpers/sql.js)\<close>

text \<open>Decimal rendering of a number inside a template string.\<close>

definition digit_char :: "nat \<Rightarrow> char" where
  "digit_char n = ''0123456789'' ! n"

fun show_nat :: "nat \<Rightarrow> string" where
  "show_nat n = (if n < 10 then [digit_char n] else show_nat (n div 10) @ [digit_char (n mod 10)])"

declare show_nat.simps [simp del]

definition show_int :: "int \<Rightarrow> string" where
  "show_int n = (if n < 0 then ''-'' @ show_nat (nat (- n)) else show_nat (nat n))"

definition dquote :: char where
  "dquote = CHR 0x22"

text \<open>The template \<open>`"${sqlKey}"=$${values.length + 1}`\<close>.\<close>

definition assignment :: "string \<Rightarrow> nat \<Rightarrow> string" where
  "assignment sqlKey idx = [dquote] @ sqlKey @ [dquote] @ ''=$'' @ show_nat idx"

text \<open>\<open>cols.join(", ")\<close>.\<close>

fun js_join :: "string \<Rightarrow> string list \<Rightarrow> string" where
  "js_join sep [] = []"
| "js_join sep [x] = x"
| "js_join sep (x # y # ys) = x @ sep @ js_join sep (y # ys)"

text \<open>
  The members that every ordinary object inherits from \<open>Object.prototype\<close>, each with
  the text a template string prints for it: a built-in function prints as the engine
  prints native code, and \<open>__proto__\<close> reads as the prototype object itself.
\<close>

definition native_function :: "string \<Rightarrow> string" where
  "native_function name = ''function '' @ name @ ''() { [native code] }''"

definition object_prototype :: "(string \<times> string) list" where
  "object_prototype =
     [(''constructor'', native_function ''Object''),
      (''__defineGetter__'', native_function ''__defineGetter__''),
      (''__defineSetter__'', native_function ''__defineSetter__''),
      (''hasOwnProperty'', native_function ''hasOwnProperty''),
      (''__lookupGetter__'', native_function ''__lookupGetter__''),
      (''__lookupSetter__'', native_function ''__lookupSetter__''),
      (''isPrototypeOf'', native_function ''isPrototypeOf''),
      (''propertyIsEnumerable'', native_function ''propertyIsEnumerable''),
      (''toString'', native_function ''toString''),
      (''valueOf'', native_function ''valueOf''),
      (''__proto__'', ''[object Object]''),
      (''toLocaleString'', native_function ''toLocaleString'')]"

text \<open>
  \<open>jsToSql[key] || key\<close>, as the template prints it. The mapping is an object literal
  that holds column names (strings). An own entry is used unless it is the empty string,
  which is falsy. Without an own entry the lookup finds an inherited member, which is
  truthy, when the key names one; otherwise it is \<open>undefined\<close> and the key itself is
  used.
\<close>

definition sqlKey_of :: "(string \<times> string) list \<Rightarrow> string \<Rightarrow> string" where
  "sqlKey_of jsToSql key =
     (case map_of jsToSql key of
        Some c \<Rightarrow> if c = [] then key else c
      | None \<Rightarrow>
          (case map_of object_prototype key of
             Some printed \<Rightarrow> printed
           | None \<Rightarrow> key))"

text \<open>\<open>s.startsWith(p)\<close>.\<close>

definition startsWith :: "string \<Rightarrow> string \<Rightarrow> bool" where
  "startsWith s p = (take (length p) s = p)"

text \<open>\<open>typeof value === 'object' && value !== null && !Array.isArray(value)\<close>.\<close>

fun is_plain_object :: "jsval \<Rightarrow> bool" where
  "is_plain_object (JObj _) = True"
| "is_plain_object _ = False"

text \<open>\<open>Object.keys(jsToSql).some(k => k.startsWith(`${key}.`))\<close>.\<close>

definition has_dotted_key :: "(string \<times> string) list \<Rightarrow> string \<Rightarrow> bool" where
  "has_dotted_key jsToSql key = list_ex (\<lambda>k. startsWith k (key @ ''.'')) (map fst jsToSql)"

text \<open>
  The result of the builder. \<open>setCols\<close> and \<open>valuesArr\<close> are the two fields of the
  object the source returns (\<open>values\<close> there). \<open>assigns\<close> is the same information as
  \<open>setCols\<close> before it is printed: the pairs of column name and placeholder number, in
  order. The source has only the text; the store below executes the pairs, which is what
  the database server recovers from the text when no column name holds a double quote. (A
  double quote inside a name would end the quoted name in the text; what the server makes
  of such a statement is outside the model, which treats the name as an unknown column.)
\<close>

record partial_update =
  setCols :: string
  valuesArr :: "jsval list"
  assigns :: "(string \<times> nat) list"

text \<open>
  The inner loop over \<open>Object.entries(value)\<close> of a nested object. The two accumulators
  are the arrays \<open>cols\<close> and \<open>values\<close> the source pushes onto; an element of \<open>cols\<close>
  is kept as the pair that \<open>assignment\<close> prints.
\<close>

fun push_nested ::
  "(string \<times> string) list \<Rightarrow> string \<Rightarrow> (string \<times> jsval) list \<Rightarrow>
   (string \<times> nat) list \<times> jsval list \<Rightarrow> (string \<times> nat) list \<times> jsval list" where
  "push_nested jsToSql key [] acc = acc"
| "push_nested jsToSql key ((nestedKey, nestedValue) # rest) (cols, vals) =
     (if nestedValue \<noteq> JUndefined then
        push_nested jsToSql key rest
          (cols @ [(sqlKey_of jsToSql (key @ ''.'' @ nestedKey), length vals + 1)],
           vals @ [nestedValue])
      else push_nested jsToSql key rest (cols, vals))"

text \<open>One round of \<open>keys.forEach\<close>.\<close>

definition push_key ::
  "js_object \<Rightarrow> (string \<times> string) list \<Rightarrow> string \<Rightarrow>
   (string \<times> nat) list \<times> jsval list \<Rightarrow> (string \<times> nat) list \<times> jsval list" where
  "push_key dataToUpdate jsToSql key acc =
     (let v = js_get dataToUpdate key in
      if v \<noteq> JUndefined then
        (case v of
           JObj entries \<Rightarrow>
             if has_dotted_key jsToSql key then push_nested jsToSql key entries acc
             else (fst acc @ [(sqlKey_of jsToSql key, length (snd acc) + 1)], snd acc @ [v])
         | _ \<Rightarrow> (fst acc @ [(sqlKey_of jsToSql key, length (snd acc) + 1)], snd acc @ [v]))
      else acc)"

fun push_keys ::
  "js_object \<Rightarrow> (string \<times> string) list \<Rightarrow> string list \<Rightarrow>
   (string \<times> nat) list \<times> jsval list \<Rightarrow> (string \<times> nat) list \<times> jsval list" where
  "push_keys dataToUpdate jsToSql [] acc = acc"
| "push_keys dataToUpdate jsToSql (key # keys) acc =
     push_keys dataToUpdate jsToSql keys (push_key dataToUpdate jsToSql key acc)"

definition sqlForPartialUpdate ::
  "js_object \<Rightarrow> (string \<times> string) list \<Rightarrow> error + partial_update" where
  "sqlForPartialUpdate dataToUpdate jsToSql =
     (let keys = js_keys dataToUpdate in
      if keys = [] then Inl (BadRequestError ''No data'')
      else
        (let (cols, vals) = push_keys dataToUpdate jsToSql keys ([], [])
         in Inr \<lparr>setCols = js_join '', '' (map (\<lambda>(c, i). assignment c i) cols),
                 valuesArr = vals,
                 assigns = cols\<rparr>))"

section \<open>The store\<close>

text \<open>
  Modelled from the spec: the table definitions (the schema file of the repository is not
  among the sources). The columns are those the statements in the models name; which of
  them may be null follows the data model of the specification (a company's employee count
  and logo, a job's salary and equity). Integer columns are 4-byte integers. Company
  handles, job ids, usernames and the pair of an application are keys, and an application
  refers to a stored user and a stored job: the store refuses to change a username or a job
  id that an application refers to. The specification has the company of a job checked
  when the job is created and not by a constraint of the store in every path; the store
  checks none.

  The store also records every statement issued, with its parameters, in \<open>issued\<close>: an
  operation that leaves the store as it found it has sent nothing to the database.

  \<open>db.query\<close> either returns a result or throws. The tests of the sources for a result
  that is \<open>undefined\<close> are therefore never true and have no branch in the models. A
  failure of the connection itself is not modelled: a statement fails only for a reason
  the statement and the stored rows give.
\<close>

record company =
  c_handle :: string
  c_name :: string
  c_description :: string
  c_num_employees :: "int option"
  c_logo_url :: "string option"

record job =
  j_id :: int
  j_title :: string
  j_salary :: "int option"
  j_equity :: "string option"
  j_company_handle :: string

record user =
  u_username :: string
  u_password :: string
  u_first_name :: string
  u_last_name :: string
  u_email :: string
  u_is_admin :: bool

record application =
  a_username :: string
  a_job_id :: int

record database =
  companies :: "company list"
  jobs :: "job list"
  users :: "user list"
  applications :: "application list"
  issued :: "(string \<times> jsval list) list"

text \<open>\<open>db.query(text, params)\<close> first reaches the server: the statement is recorded.\<close>

definition issue :: "string \<Rightarrow> jsval list \<Rightarrow> database \<Rightarrow> database" where
  "issue sql params db = db\<lparr>issued := issued db @ [(sql, params)]\<rparr>"

subsection \<open>Parameters and column types\<close>

text \<open>
  A statement refers to its parameters as \<open>$1\<close>, \<open>$2\<close>, ... The server rejects a
  statement that names a parameter it was not given.
\<close>

datatype coltype = TText | TInt | TBool | TNumeric

datatype sqlval = SNull | SInt int | SText string | SBool bool | SNumeric string

definition param :: "jsval list \<Rightarrow> nat \<Rightarrow> dberror + jsval" where
  "param ps i = (if 1 \<le> i \<and> i \<le> length ps then Inr (ps ! (i - 1)) else Inl (DbError ''08P01''))"

text \<open>
  The driver sends \<open>null\<close> and \<open>undefined\<close> as SQL NULL and every other parameter as
  text: a string as it is, a number or a boolean printed, an array as an array literal
  (its elements quoted, with backslashes and quotes escaped; \<open>null\<close> and \<open>undefined\<close>
  elements as \<open>NULL\<close>; nested arrays as nested literals) and any other object as the text
  of \<open>JSON.stringify\<close>.
\<close>

definition backslash :: char where
  "backslash = CHR 0x5C"

definition hex_digit :: "nat \<Rightarrow> char" where
  "hex_digit n = ''0123456789abcdef'' ! n"

definition json_char :: "char \<Rightarrow> string" where
  "json_char c =
     (let n = (of_char c :: nat) in
      if c = dquote then [backslash, dquote]
      else if c = backslash then [backslash, backslash]
      else if n = 8 then [backslash, CHR ''b'']
      else if n = 9 then [backslash, CHR ''t'']
      else if n = 10 then [backslash, CHR ''n'']
      else if n = 12 then [backslash, CHR ''f'']
      else if n = 13 then [backslash, CHR ''r'']
      else if n < 32 then [backslash] @ ''u00'' @ [hex_digit (n div 16), hex_digit (n mod 16)]
      else [c])"

definition json_string :: "string \<Rightarrow> string" where
  "json_string s = [dquote] @ concat (map json_char s) @ [dquote]"

text \<open>
  \<open>JSON.stringify\<close>: a property whose value is \<open>undefined\<close> is left out of an object,
  and an \<open>undefined\<close> element of an array is written \<open>null\<close>.
\<close>

fun json_of :: "jsval \<Rightarrow> string" where
  "json_of JUndefined = ''null''"
| "json_of JNull = ''null''"
| "json_of (JBool b) = (if b then ''true'' else ''false'')"
| "json_of (JNum n) = show_int n"
| "json_of (JStr s) = json_string s"
| "json_of (JArr xs) = ''['' @ js_join '','' (map json_of xs) @ '']''"
| "json_of (JObj entries) =
     ''{'' @ js_join '',''
               (map (\<lambda>kv. json_string (fst kv) @ '':'' @ json_of (snd kv))
                  (filter (\<lambda>kv. snd kv \<noteq> JUndefined) entries))
       @ ''}''"

text \<open>\<open>escapeElement\<close> of the driver: an element of an array literal.\<close>

definition escapeElement :: "string \<Rightarrow> string" where
  "escapeElement s =
     [dquote]
       @ concat (map (\<lambda>c. if c = backslash then [backslash, backslash]
                            else if c = dquote then [backslash, dquote] else [c]) s)
       @ [dquote]"

text \<open>\<open>prepareValue\<close> of the driver, for a value that is neither \<open>null\<close> nor \<open>undefined\<close>.\<close>

fun prepareValue :: "jsval \<Rightarrow> string" where
  "prepareValue JUndefined = []"
| "prepareValue JNull = []"
| "prepareValue (JBool b) = (if b then ''true'' else ''false'')"
| "prepareValue (JNum n) = show_int n"
| "prepareValue (JStr s) = s"
| "prepareValue (JArr xs) =
     ''{'' @ js_join '',''
               (map (\<lambda>x. if x = JNull \<or> x = JUndefined then ''NULL''
                          else if is_array x then prepareValue x
                          else escapeElement (prepareValue x)) xs)
       @ ''}''"
| "prepareValue (JObj entries) = json_of (JObj entries)"

text \<open>
  The server reads the text in the type of the column it is compared with or assigned to.
  Text may not hold the character with code 0. An integer is read from optional white
  space, an optional sign and decimal digits, and must lie in the range of a 4-byte
  integer. A boolean is read, without regard to case and surrounding white space, from
  \<open>true\<close>, \<open>false\<close>, \<open>yes\<close>, \<open>no\<close> or a prefix of one of them, \<open>on\<close>, \<open>of\<close>,
  \<open>off\<close>, \<open>1\<close> or \<open>0\<close>. A numeric column takes an optionally negated decimal (as
  the API sends equity) and is kept as the decimal string the driver returns for it. The
  further spellings of numbers that the server or some of its versions accept (white space
  or a plus sign around a decimal, a leading point, exponents, non-decimal integers) are
  not reproduced: such a text is rejected here as a malformed literal.
\<close>

definition nul :: char where
  "nul = CHR 0x00"

definition text_ok :: "string \<Rightarrow> bool" where
  "text_ok s = (nul \<notin> set s)"

definition pg_space :: "char \<Rightarrow> bool" where
  "pg_space c = ((of_char c :: nat) \<in> {9, 10, 11, 12, 13, 32})"

definition pg_trim :: "string \<Rightarrow> string" where
  "pg_trim s = rev (dropWhile pg_space (rev (dropWhile pg_space s)))"

definition lower_char :: "char \<Rightarrow> char" where
  "lower_char c = (let n = (of_char c :: nat) in if 65 \<le> n \<and> n \<le> 90 then char_of (n + 32) else c)"

definition sql_lower :: "string \<Rightarrow> string" where
  "sql_lower s = map lower_char s"

definition is_digit :: "char \<Rightarrow> bool" where
  "is_digit c = (let n = (of_char c :: nat) in 48 \<le> n \<and> n \<le> 57)"

definition digits_value :: "string \<Rightarrow> nat" where
  "digits_value ds = foldl (\<lambda>acc c. 10 * acc + (of_char c - 48)) 0 ds"

definition parse_nat :: "string \<Rightarrow> nat option" where
  "parse_nat s = (if s \<noteq> [] \<and> list_all is_digit s then Some (digits_value s) else None)"

text \<open>An integer literal: digits, with an optional sign in front and white space around.\<close>

definition parse_int :: "string \<Rightarrow> int option" where
  "parse_int s =
     (case pg_trim s of
        [] \<Rightarrow> None
      | c # r \<Rightarrow>
          if c = CHR ''-'' then map_option (\<lambda>n. - int n) (parse_nat r)
          else if c = CHR ''+'' then map_option int (parse_nat r)
          else map_option int (parse_nat (c # r)))"

definition in_int4 :: "int \<Rightarrow> bool" where
  "in_int4 n = (- 2147483648 \<le> n \<and> n \<le> 2147483647)"

definition parse_bool :: "string \<Rightarrow> bool option" where
  "parse_bool s =
     (let t = sql_lower (pg_trim s) in
      if t = [] then None
      else if startsWith ''true'' t \<or> startsWith ''yes'' t \<or> t = ''on'' \<or> t = ''1''
        then Some True
      else if startsWith ''false'' t \<or> startsWith ''no'' t \<or> t = ''of'' \<or> t = ''off''
              \<or> t = ''0''
        then Some False
      else None)"

text \<open>An unsigned decimal literal: digits, optionally a point and more digits.\<close>

definition parse_decimal :: "string \<Rightarrow> rat option" where
  "parse_decimal s =
     (let ip = takeWhile is_digit s; rest = dropWhile is_digit s in
      if ip = [] then None
      else if rest = [] then Some (of_nat (digits_value ip))
      else if hd rest = CHR ''.'' \<and> tl rest \<noteq> [] \<and> list_all is_digit (tl rest)
        then Some (of_nat (digits_value ip)
                     + of_nat (digits_value (tl rest)) / of_nat (10 ^ length (tl rest)))
      else None)"

definition parse_numeric :: "string \<Rightarrow> rat option" where
  "parse_numeric s =
     (case s of
        [] \<Rightarrow> None
      | c # r \<Rightarrow> if c = CHR ''-'' then map_option uminus (parse_decimal r) else parse_decimal s)"

text \<open>The error for a text that cannot be read in the column's type.\<close>

definition malformed :: "string \<Rightarrow> dberror" where
  "malformed s = DbError (if text_ok s then ''22P02'' else ''22021'')"

fun coerce :: "coltype \<Rightarrow> jsval \<Rightarrow> dberror + sqlval" where
  "coerce t JNull = Inr SNull"
| "coerce t JUndefined = Inr SNull"
| "coerce TText v =
     (if text_ok (prepareValue v) then Inr (SText (prepareValue v)) else Inl (DbError ''22021''))"
| "coerce TInt v =
     (case parse_int (prepareValue v) of
        None \<Rightarrow> Inl (malformed (prepareValue v))
      | Some n \<Rightarrow> if in_int4 n then Inr (SInt n) else Inl (DbError ''22003''))"
| "coerce TBool v =
     (case parse_bool (prepareValue v) of
        None \<Rightarrow> Inl (malformed (prepareValue v))
      | Some b \<Rightarrow> Inr (SBool b))"
| "coerce TNumeric v =
     (case parse_numeric (prepareValue v) of
        None \<Rightarrow> Inl (malformed (prepareValue v))
      | Some r \<Rightarrow> Inr (SNumeric (prepareValue v)))"

text \<open>Running a fallible step over a list, stopping at the first error.\<close>

fun map_sum :: "('a \<Rightarrow> 'e + 'b) \<Rightarrow> 'a list \<Rightarrow> 'e + 'b list" where
  "map_sum f [] = Inr []"
| "map_sum f (x # xs) =
     (case f x of
        Inl e \<Rightarrow> Inl e
      | Inr y \<Rightarrow> (case map_sum f xs of Inl e \<Rightarrow> Inl e | Inr ys \<Rightarrow> Inr (y # ys)))"

fun fold_sum :: "('a \<Rightarrow> 'r \<Rightarrow> 'e + 'r) \<Rightarrow> 'a list \<Rightarrow> 'r \<Rightarrow> 'e + 'r" where
  "fold_sum f [] r = Inr r"
| "fold_sum f (x # xs) r = (case f x r of Inl e \<Rightarrow> Inl e | Inr r' \<Rightarrow> fold_sum f xs r')"

subsection \<open>UPDATE ... SET ... WHERE key = $k RETURNING ...\<close>

text \<open>
  The three \<open>update\<close> operations send \<open>UPDATE t SET <setCols> WHERE <key> = $k\<close>. The
  server parses the statement before it looks at a row: an empty SET list is a syntax
  error, a column assigned twice or not in the table and a parameter of the wrong type
  are rejected whether or not a row matches. A null for a column that must not be null,
  a duplicate key and a key that is changed while another table refers to it are found
  only when a row is written. A statement that fails changes nothing. \<open>run_update\<close>
  returns the rows of the table after the update and, for the rows the \<open>WHERE\<close> clause
  selected, the pairs of the row before and the row after.
\<close>

definition typed_assign ::
  "(string \<times> coltype) list \<Rightarrow> jsval list \<Rightarrow> string \<times> nat \<Rightarrow> dberror + (string \<times> sqlval)" where
  "typed_assign schema ps a =
     (case map_of schema (fst a) of
        None \<Rightarrow> Inl (DbError ''42703'')
      | Some t \<Rightarrow>
          (case param ps (snd a) of
             Inl e \<Rightarrow> Inl e
           | Inr v \<Rightarrow> (case coerce t v of Inl e \<Rightarrow> Inl e | Inr w \<Rightarrow> Inr (fst a, w))))"

definition run_update ::
  "(string \<times> coltype) list \<Rightarrow> (string \<times> sqlval \<Rightarrow> 'r \<Rightarrow> dberror + 'r) \<Rightarrow>
   coltype \<Rightarrow> ('r \<Rightarrow> sqlval) \<Rightarrow>
   (string \<times> nat) list \<Rightarrow> jsval list \<Rightarrow> nat \<Rightarrow> 'r list \<Rightarrow>
   dberror + ('r list \<times> ('r \<times> 'r) list)" where
  "run_update schema put key_type key_of sets ps k rows =
     (if sets = [] then Inl (DbError ''42601'')
      else if \<not> distinct (map fst sets) then Inl (DbError ''42601'')
      else
        (case map_sum (typed_assign schema ps) sets of
           Inl e \<Rightarrow> Inl e
         | Inr tsets \<Rightarrow>
             (case param ps k of
                Inl e \<Rightarrow> Inl e
              | Inr kv \<Rightarrow>
                  (case coerce key_type kv of
                     Inl e \<Rightarrow> Inl e
                   | Inr key \<Rightarrow>
                       (let matches = (\<lambda>r. key \<noteq> SNull \<and> key_of r = key) in
                        case map_sum (\<lambda>r. if matches r then fold_sum put tsets r else Inr r) rows of
                          Inl e \<Rightarrow> Inl e
                        | Inr rows' \<Rightarrow>
                            Inr (rows', filter (\<lambda>p. matches (fst p)) (zip rows rows')))))))"

subsection \<open>LOWER and LIKE\<close>

text \<open>
  \<open>LOWER\<close> is \<open>sql_lower\<close> above, on the ASCII letters. \<open>LIKE\<close> as the server
  matches it: in the pattern \<open>%\<close> stands for any run of characters, \<open>_\<close> for any one
  character, and a backslash makes the character after it literal. (A pattern ending in a
  lone backslash is an error on the server; the patterns built here always end in \<open>%\<close>.)
\<close>

definition percent :: char where
  "percent = CHR 0x25"

definition underscore :: char where
  "underscore = CHR 0x5F"

fun like_match :: "string \<Rightarrow> string \<Rightarrow> bool" where
  "like_match [] s = (s = [])"
| "like_match (c # p) s =
     (if c = percent then
        (like_match p s \<or> (case s of [] \<Rightarrow> False | x # t \<Rightarrow> like_match (c # p) t))
      else if c = underscore then
        (case s of [] \<Rightarrow> False | x # t \<Rightarrow> like_match p t)
      else if c = backslash then
        (case p of
           [] \<Rightarrow> False
         | d # p' \<Rightarrow> (case s of [] \<Rightarrow> False | x # t \<Rightarrow> x = d \<and> like_match p' t))
      else (case s of [] \<Rightarrow> False | x # t \<Rightarrow> x = c \<and> like_match p t))"

text \<open>\<open>LOWER(col) LIKE '%' || LOWER($i) || '%'\<close>.\<close>

definition lower_like :: "string \<Rightarrow> string \<Rightarrow> bool" where
  "lower_like col p = like_match ([percent] @ sql_lower p @ [percent]) (sql_lower col)"

section \<open>Companies (models/company.js)\<close>

definition company_schema :: "(string \<times> coltype) list" where
  "company_schema =
     [(''handle'', TText), (''name'', TText), (''description'', TText),
      (''num_employees'', TInt), (''logo_url'', TText)]"

fun put_company :: "string \<times> sqlval \<Rightarrow> company \<Rightarrow> dberror + company" where
  "put_company (col, v) c =
     (if col = ''handle'' then
        (case v of SText s \<Rightarrow> Inr (c\<lparr>c_handle := s\<rparr>)
                 | SNull \<Rightarrow> Inl (DbError ''23502'') | _ \<Rightarrow> Inl (DbError ''22P02''))
      else if col = ''name'' then
        (case v of SText s \<Rightarrow> Inr (c\<lparr>c_name := s\<rparr>)
                 | SNull \<Rightarrow> Inl (DbError ''23502'') | _ \<Rightarrow> Inl (DbError ''22P02''))
      else if col = ''description'' then
        (case v of SText s \<Rightarrow> Inr (c\<lparr>c_description := s\<rparr>)
                 | SNull \<Rightarrow> Inl (DbError ''23502'') | _ \<Rightarrow> Inl (DbError ''22P02''))
      else if col = ''num_employees'' then
        (case v of SInt n \<Rightarrow> Inr (c\<lparr>c_num_employees := Some n\<rparr>)
                 | SNull \<Rightarrow> Inr (c\<lparr>c_num_employees := None\<rparr>) | _ \<Rightarrow> Inl (DbError ''22P02''))
      else if col = ''logo_url'' then
        (case v of SText s \<Rightarrow> Inr (c\<lparr>c_logo_url := Some s\<rparr>)
                 | SNull \<Rightarrow> Inr (c\<lparr>c_logo_url := None\<rparr>) | _ \<Rightarrow> Inl (DbError ''22P02''))
      else Inl (DbError ''42703''))"

text \<open>
  The row object of
  \<open>handle, name, description, num_employees AS "numEmployees", logo_url AS "logoUrl"\<close>.
\<close>

definition company_row :: "company \<Rightarrow> js_object" where
  "company_row c =
     [(''handle'', JStr (c_handle c)),
      (''name'', JStr (c_name c)),
      (''description'', JStr (c_description c)),
      (''numEmployees'', (case c_num_employees c of None \<Rightarrow> JNull | Some n \<Rightarrow> JNum n)),
      (''logoUrl'', (case c_logo_url c of None \<Rightarrow> JNull | Some u \<Rightarrow> JStr u))]"

definition company_returning :: string where
  "company_returning =
     ''handle, name, description, num_employees AS '' @ [dquote] @ ''numEmployees'' @ [dquote]
       @ '', logo_url AS '' @ [dquote] @ ''logoUrl'' @ [dquote]"

definition update_companies ::
  "(string \<times> nat) list \<Rightarrow> jsval list \<Rightarrow> nat \<Rightarrow> database \<Rightarrow>
   dberror + (database \<times> js_object list)" where
  "update_companies sets ps k db =
     (case run_update company_schema put_company TText (\<lambda>c. SText (c_handle c)) sets ps k
             (companies db) of
        Inl e \<Rightarrow> Inl e
      | Inr (rows', changed) \<Rightarrow>
          if distinct (map c_handle rows')
          then Inr (db\<lparr>companies := rows'\<rparr>, map (\<lambda>p. company_row (snd p)) changed)
          else Inl (DbError ''23505''))"

text \<open>
  \<open>Company.update(handle, data)\<close>. The builder's exception leaves the function before
  \<open>db.query\<close> is reached. A database error is wrapped in an \<open>ExpressError\<close> without a
  status.
\<close>

definition Company_update ::
  "string \<Rightarrow> js_object \<Rightarrow> database \<Rightarrow> (error + js_object) \<times> database" where
  "Company_update handle data db =
     (case sqlForPartialUpdate data
             [(''numEmployees'', ''num_employees''), (''logoUrl'', ''logo_url'')] of
        Inl e \<Rightarrow> (Inl e, db)
      | Inr pu \<Rightarrow>
          (let handleVarIdx = ''$'' @ show_nat (length (valuesArr pu) + 1);
               querySql = ''UPDATE companies SET '' @ setCols pu @ '' WHERE handle = ''
                            @ handleVarIdx @ '' RETURNING '' @ company_returning;
               params = valuesArr pu @ [JStr handle];
               db1 = issue querySql params db
           in case update_companies (assigns pu) params (length (valuesArr pu) + 1) db1 of
                Inl e \<Rightarrow> (Inl (ExpressErrorDb e None), db1)
              | Inr (db2, rows) \<Rightarrow>
                  (case rows of
                     [] \<Rightarrow> (Inl (NotFoundError (''No company: '' @ handle)), db2)
                   | company # _ \<Rightarrow> (Inr company, db2))))"

text \<open>
  \<open>Company.findAll(filters)\<close>. A condition is kept as its kind and the number of its
  placeholder; \<open>company_cond_sql\<close> prints the text the source pushes.
\<close>

datatype company_cond = Num_employees_ge nat | Num_employees_le nat | Name_like nat

fun company_cond_sql :: "company_cond \<Rightarrow> string" where
  "company_cond_sql (Num_employees_ge i) = ''num_employees >= $'' @ show_nat i"
| "company_cond_sql (Num_employees_le i) = ''num_employees <= $'' @ show_nat i"
| "company_cond_sql (Name_like i) =
     ''LOWER(name) LIKE '' @ [CHR 0x27, percent, CHR 0x27] @ '' || LOWER($'' @ show_nat i
       @ '') || '' @ [CHR 0x27, percent, CHR 0x27]"

fun company_cond_param :: "company_cond \<Rightarrow> nat \<times> coltype" where
  "company_cond_param (Num_employees_ge i) = (i, TInt)"
| "company_cond_param (Num_employees_le i) = (i, TInt)"
| "company_cond_param (Name_like i) = (i, TText)"

text \<open>A comparison with NULL on either side is not true, so the row is not selected.\<close>

fun company_cond_holds :: "company \<Rightarrow> company_cond \<times> sqlval \<Rightarrow> bool" where
  "company_cond_holds c (Num_employees_ge i, SInt m) =
     (case c_num_employees c of None \<Rightarrow> False | Some n \<Rightarrow> n \<ge> m)"
| "company_cond_holds c (Num_employees_le i, SInt m) =
     (case c_num_employees c of None \<Rightarrow> False | Some n \<Rightarrow> n \<le> m)"
| "company_cond_holds c (Name_like i, SText p) = lower_like (c_name c) p"
| "company_cond_holds c _ = False"

definition typed_cond ::
  "('c \<Rightarrow> nat \<times> coltype) \<Rightarrow> jsval list \<Rightarrow> 'c \<Rightarrow> dberror + ('c \<times> sqlval)" where
  "typed_cond cond_param ps cond =
     (case param ps (fst (cond_param cond)) of
        Inl e \<Rightarrow> Inl e
      | Inr v \<Rightarrow>
          (case coerce (snd (cond_param cond)) v of
             Inl e \<Rightarrow> Inl e
           | Inr w \<Rightarrow> Inr (cond, w)))"

text \<open>
  \<open>SELECT ... FROM companies [WHERE c1 AND c2 ...] ORDER BY name\<close>. Names are ordered as
  lists of characters (the order of the \<open>C\<close> collation); rows with equal names keep their
  stored order, which the server does not promise.
\<close>

definition select_companies ::
  "company_cond list \<Rightarrow> jsval list \<Rightarrow> database \<Rightarrow> dberror + js_object list" where
  "select_companies conds ps db =
     (case map_sum (typed_cond company_cond_param ps) conds of
        Inl e \<Rightarrow> Inl e
      | Inr tconds \<Rightarrow>
          Inr (map company_row
                 (sort_key c_name
                    (filter (\<lambda>c. list_all (company_cond_holds c) tconds) (companies db)))))"

definition Company_findAll ::
  "js_object \<Rightarrow> database \<Rightarrow> (error + js_object list) \<times> database" where
  "Company_findAll filters db =
     (let minEmployees = js_get filters ''minEmployees'';
          maxEmployees = js_get filters ''maxEmployees'';
          nameLike = js_get filters ''nameLike'';
          query = ''SELECT '' @ company_returning @ '' FROM companies'';
          (conditions, vals) = ([], []);
          (conditions, vals) =
             (if minEmployees \<noteq> JUndefined
              then (conditions @ [Num_employees_ge (length vals + 1)], vals @ [minEmployees])
              else (conditions, vals));
          (conditions, vals) =
             (if maxEmployees \<noteq> JUndefined
              then (conditions @ [Num_employees_le (length vals + 1)], vals @ [maxEmployees])
              else (conditions, vals));
          (conditions, vals) =
             (if nameLike \<noteq> JUndefined
              then (conditions @ [Name_like (length vals + 1)], vals @ [nameLike])
              else (conditions, vals));
          query = (if length conditions > 0
                   then query @ '' WHERE '' @ js_join '' AND '' (map company_cond_sql conditions)
                   else query);
          query = query @ '' ORDER BY name'';
          db1 = issue query vals db
      in case select_companies conditions vals db1 of
           Inl e \<Rightarrow> (Inl (ExpressErrorDb e None), db1)
         | Inr rows \<Rightarrow> (Inr rows, db1))"

section \<open>Jobs (models/job.js)\<close>

text \<open>
  \<open>String(v)\<close>, which \<open>==\<close> applies to an array or object operand before it compares
  it with a string: an array prints its elements joined by commas, with \<open>null\<close> and
  \<open>undefined\<close> elements printed as nothing.
\<close>

fun js_string_of :: "jsval \<Rightarrow> string" where
  "js_string_of JUndefined = ''undefined''"
| "js_string_of JNull = ''null''"
| "js_string_of (JBool b) = (if b then ''true'' else ''false'')"
| "js_string_of (JNum n) = show_int n"
| "js_string_of (JStr s) = s"
| "js_string_of (JArr xs) =
     js_join '','' (map (\<lambda>x. if x = JUndefined \<or> x = JNull then [] else js_string_of x) xs)"
| "js_string_of (JObj entries) = ''[object Object]''"

text \<open>
  \<open>v == 'true'\<close>. A boolean or a number is compared as a number with the number the
  string denotes, and \<open>'true'\<close> denotes none, so the comparison is false.
\<close>

fun loose_eq_true :: "jsval \<Rightarrow> bool" where
  "loose_eq_true (JStr s) = (s = ''true'')"
| "loose_eq_true (JArr xs) = (js_string_of (JArr xs) = ''true'')"
| "loose_eq_true (JObj entries) = (js_string_of (JObj entries) = ''true'')"
| "loose_eq_true v = False"

definition job_schema :: "(string \<times> coltype) list" where
  "job_schema =
     [(''id'', TInt), (''title'', TText), (''salary'', TInt), (''equity'', TNumeric),
      (''company_handle'', TText)]"

text \<open>The value of a stored equity, for \<open>equity > 0\<close> and the range check.\<close>

definition equity_value :: "job \<Rightarrow> rat option" where
  "equity_value j = (case j_equity j of None \<Rightarrow> None | Some s \<Rightarrow> parse_numeric s)"

fun put_job :: "string \<times> sqlval \<Rightarrow> job \<Rightarrow> dberror + job" where
  "put_job (col, v) j =
     (if col = ''id'' then
        (case v of SInt n \<Rightarrow> Inr (j\<lparr>j_id := n\<rparr>)
                 | SNull \<Rightarrow> Inl (DbError ''23502'') | _ \<Rightarrow> Inl (DbError ''22P02''))
      else if col = ''title'' then
        (case v of SText s \<Rightarrow> Inr (j\<lparr>j_title := s\<rparr>)
                 | SNull \<Rightarrow> Inl (DbError ''23502'') | _ \<Rightarrow> Inl (DbError ''22P02''))
      else if col = ''salary'' then
        (case v of SInt n \<Rightarrow> if n < 0 then Inl (DbError ''23514'') else Inr (j\<lparr>j_salary := Some n\<rparr>)
                 | SNull \<Rightarrow> Inr (j\<lparr>j_salary := None\<rparr>) | _ \<Rightarrow> Inl (DbError ''22P02''))
      else if col = ''equity'' then
        (case v of
           SNumeric s \<Rightarrow>
             (case parse_numeric s of
                None \<Rightarrow> Inl (DbError ''22P02'')
              | Some r \<Rightarrow> if 0 \<le> r \<and> r \<le> 1 then Inr (j\<lparr>j_equity := Some s\<rparr>)
                          else Inl (DbError ''23514''))
         | SNull \<Rightarrow> Inr (j\<lparr>j_equity := None\<rparr>) | _ \<Rightarrow> Inl (DbError ''22P02''))
      else if col = ''company_handle'' then
        (case v of SText s \<Rightarrow> Inr (j\<lparr>j_company_handle := s\<rparr>)
                 | SNull \<Rightarrow> Inl (DbError ''23502'') | _ \<Rightarrow> Inl (DbError ''22P02''))
      else Inl (DbError ''42703''))"

text \<open>The row object of \<open>id, title, salary, equity, company_handle AS "companyHandle"\<close>.\<close>

definition job_row :: "job \<Rightarrow> js_object" where
  "job_row j =
     [(''id'', JNum (j_id j)),
      (''title'', JStr (j_title j)),
      (''salary'', (case j_salary j of None \<Rightarrow> JNull | Some n \<Rightarrow> JNum n)),
      (''equity'', (case j_equity j of None \<Rightarrow> JNull | Some s \<Rightarrow> JStr s)),
      (''companyHandle'', JStr (j_company_handle j))]"

definition job_returning :: string where
  "job_returning =
     ''id, title, salary, equity, company_handle AS '' @ [dquote] @ ''companyHandle'' @ [dquote]"

definition update_jobs ::
  "(string \<times> nat) list \<Rightarrow> jsval list \<Rightarrow> nat \<Rightarrow> database \<Rightarrow>
   dberror + (database \<times> js_object list)" where
  "update_jobs sets ps k db =
     (case run_update job_schema put_job TInt (\<lambda>j. SInt (j_id j)) sets ps k (jobs db) of
        Inl e \<Rightarrow> Inl e
      | Inr (rows', changed) \<Rightarrow>
          if \<not> distinct (map j_id rows') then Inl (DbError ''23505'')
          else if list_ex (\<lambda>p. j_id (fst p) \<noteq> j_id (snd p)
                                \<and> j_id (fst p) \<in> set (map a_job_id (applications db))) changed
            then Inl (DbError ''23503'')
          else Inr (db\<lparr>jobs := rows'\<rparr>, map (\<lambda>p. job_row (snd p)) changed))"

text \<open>
  \<open>Job.update(id, data)\<close>. There is no \<open>try\<close> around the query: a database error
  leaves the function as it is.
\<close>

definition Job_update ::
  "int \<Rightarrow> js_object \<Rightarrow> database \<Rightarrow> (error + js_object) \<times> database" where
  "Job_update id' data db =
     (case sqlForPartialUpdate data
             [(''title'', ''title''), (''salary'', ''salary''), (''equity'', ''equity'')] of
        Inl e \<Rightarrow> (Inl e, db)
      | Inr pu \<Rightarrow>
          (let handleVarIdx = ''$'' @ show_nat (length (valuesArr pu) + 1);
               querySql = ''UPDATE jobs SET '' @ setCols pu @ '' WHERE id = ''
                            @ handleVarIdx @ '' RETURNING '' @ job_returning;
               params = valuesArr pu @ [JNum id'];
               db1 = issue querySql params db
           in case update_jobs (assigns pu) params (length (valuesArr pu) + 1) db1 of
                Inl e \<Rightarrow> (Inl (DriverError e), db1)
              | Inr (db2, rows) \<Rightarrow>
                  (case rows of
                     [] \<Rightarrow> (Inl (NotFoundError (''No job was updated: '' @ show_int id')), db2)
                   | job # _ \<Rightarrow> (Inr job, db2))))"

text \<open>\<open>Job.findAll(filters)\<close>, with the conditions in the order the source tests them.\<close>

datatype job_cond = Salary_ge nat | Title_like nat | Title_eq nat | Equity_pos

fun job_cond_sql :: "job_cond \<Rightarrow> string" where
  "job_cond_sql (Salary_ge i) = ''salary >= $'' @ show_nat i"
| "job_cond_sql (Title_like i) =
     ''LOWER(title) LIKE '' @ [CHR 0x27, percent, CHR 0x27] @ '' || LOWER($'' @ show_nat i
       @ '') || '' @ [CHR 0x27, percent, CHR 0x27]"
| "job_cond_sql (Title_eq i) = ''title = $'' @ show_nat i"
| "job_cond_sql Equity_pos = ''equity > 0''"

text \<open>The parameter a condition reads; \<open>equity > 0\<close> reads none.\<close>

fun job_cond_param :: "job_cond \<Rightarrow> (nat \<times> coltype) option" where
  "job_cond_param (Salary_ge i) = Some (i, TInt)"
| "job_cond_param (Title_like i) = Some (i, TText)"
| "job_cond_param (Title_eq i) = Some (i, TText)"
| "job_cond_param Equity_pos = None"

definition typed_job_cond :: "jsval list \<Rightarrow> job_cond \<Rightarrow> dberror + (job_cond \<times> sqlval)" where
  "typed_job_cond ps cond =
     (case job_cond_param cond of
        None \<Rightarrow> Inr (cond, SNull)
      | Some (i, t) \<Rightarrow>
          (case param ps i of
             Inl e \<Rightarrow> Inl e
           | Inr v \<Rightarrow> (case coerce t v of Inl e \<Rightarrow> Inl e | Inr w \<Rightarrow> Inr (cond, w))))"

fun job_cond_holds :: "job \<Rightarrow> job_cond \<times> sqlval \<Rightarrow> bool" where
  "job_cond_holds j (Salary_ge i, SInt m) =
     (case j_salary j of None \<Rightarrow> False | Some n \<Rightarrow> n \<ge> m)"
| "job_cond_holds j (Title_like i, SText p) = lower_like (j_title j) p"
| "job_cond_holds j (Title_eq i, SText t) = (j_title j = t)"
| "job_cond_holds j (Equity_pos, w) =
     (case equity_value j of None \<Rightarrow> False | Some r \<Rightarrow> r > 0)"
| "job_cond_holds j _ = False"

text \<open>\<open>SELECT ... FROM jobs [WHERE c1 AND c2 ...] ORDER BY title\<close>.\<close>

definition select_jobs ::
  "job_cond list \<Rightarrow> jsval list \<Rightarrow> database \<Rightarrow> dberror + js_object list" where
  "select_jobs conds ps db =
     (case map_sum (typed_job_cond ps) conds of
        Inl e \<Rightarrow> Inl e
      | Inr tconds \<Rightarrow>
          Inr (map job_row
                 (sort_key j_title
                    (filter (\<lambda>j. list_all (job_cond_holds j) tconds) (jobs db)))))"

definition Job_findAll ::
  "js_object \<Rightarrow> database \<Rightarrow> (error + js_object list) \<times> database" where
  "Job_findAll filters db =
     (let minSalary = js_get filters ''minSalary'';
          hasEquity = js_get filters ''hasEquity'';
          title = js_get filters ''title'';
          titleLike = js_get filters ''titleLike'';
          query = ''SELECT '' @ job_returning @ '' FROM jobs'';
          (conditions, vals) = ([], []);
          (conditions, vals) =
             (if minSalary \<noteq> JUndefined
              then (conditions @ [Salary_ge (length vals + 1)], vals @ [minSalary])
              else (conditions, vals));
          (conditions, vals) =
             (if titleLike \<noteq> JUndefined
              then (conditions @ [Title_like (length vals + 1)], vals @ [titleLike])
              else (conditions, vals));
          (conditions, vals) =
             (if title \<noteq> JUndefined
              then (conditions @ [Title_eq (length vals + 1)], vals @ [title])
              else (conditions, vals));
          conditions =
             (if hasEquity = JBool True \<or> loose_eq_true hasEquity
              then conditions @ [Equity_pos]
              else conditions);
          query = (if length conditions > 0
                   then query @ '' WHERE '' @ js_join '' AND '' (map job_cond_sql conditions)
                   else query);
          query = query @ '' ORDER BY title'';
          db1 = issue query vals db
      in case select_jobs conditions vals db1 of
           Inl e \<Rightarrow> (Inl (DriverError e), db1)
         | Inr rows \<Rightarrow> (Inr rows, db1))"

section \<open>Users (models/user.js)\<close>

definition user_schema :: "(string \<times> coltype) list" where
  "user_schema =
     [(''username'', TText), (''password'', TText), (''first_name'', TText),
      (''last_name'', TText), (''email'', TText), (''is_admin'', TBool)]"

fun put_user :: "string \<times> sqlval \<Rightarrow> user \<Rightarrow> dberror + user" where
  "put_user (col, v) u =
     (if col = ''username'' then
        (case v of SText s \<Rightarrow> Inr (u\<lparr>u_username := s\<rparr>)
                 | SNull \<Rightarrow> Inl (DbError ''23502'') | _ \<Rightarrow> Inl (DbError ''22P02''))
      else if col = ''password'' then
        (case v of SText s \<Rightarrow> Inr (u\<lparr>u_password := s\<rparr>)
                 | SNull \<Rightarrow> Inl (DbError ''23502'') | _ \<Rightarrow> Inl (DbError ''22P02''))
      else if col = ''first_name'' then
        (case v of SText s \<Rightarrow> Inr (u\<lparr>u_first_name := s\<rparr>)
                 | SNull \<Rightarrow> Inl (DbError ''23502'') | _ \<Rightarrow> Inl (DbError ''22P02''))
      else if col = ''last_name'' then
        (case v of SText s \<Rightarrow> Inr (u\<lparr>u_last_name := s\<rparr>)
                 | SNull \<Rightarrow> Inl (DbError ''23502'') | _ \<Rightarrow> Inl (DbError ''22P02''))
      else if col = ''email'' then
        (case v of SText s \<Rightarrow> Inr (u\<lparr>u_email := s\<rparr>)
                 | SNull \<Rightarrow> Inl (DbError ''23502'') | _ \<Rightarrow> Inl (DbError ''22P02''))
      else if col = ''is_admin'' then
        (case v of SBool b \<Rightarrow> Inr (u\<lparr>u_is_admin := b\<rparr>)
                 | SNull \<Rightarrow> Inl (DbError ''23502'') | _ \<Rightarrow> Inl (DbError ''22P02''))
      else Inl (DbError ''42703''))"

text \<open>
  The row object of
  \<open>username, first_name AS "firstName", last_name AS "lastName", email, is_admin AS "isAdmin"\<close>.
\<close>

definition user_row :: "user \<Rightarrow> js_object" where
  "user_row u =
     [(''username'', JStr (u_username u)),
      (''firstName'', JStr (u_first_name u)),
      (''lastName'', JStr (u_last_name u)),
      (''email'', JStr (u_email u)),
      (''isAdmin'', JBool (u_is_admin u))]"

text \<open>The row object of the statement in \<open>authenticate\<close>, which also selects the password.\<close>

definition user_auth_row :: "user \<Rightarrow> js_object" where
  "user_auth_row u =
     [(''username'', JStr (u_username u)),
      (''password'', JStr (u_password u)),
      (''firstName'', JStr (u_first_name u)),
      (''lastName'', JStr (u_last_name u)),
      (''email'', JStr (u_email u)),
      (''isAdmin'', JBool (u_is_admin u))]"

definition user_returning :: string where
  "user_returning =
     ''username, first_name AS '' @ [dquote] @ ''firstName'' @ [dquote]
       @ '', last_name AS '' @ [dquote] @ ''lastName'' @ [dquote]
       @ '', email, is_admin AS '' @ [dquote] @ ''isAdmin'' @ [dquote]"

text \<open>
  \<open>User.authenticate(username, password)\<close>. \<open>compare\<close> stands for \<open>bcrypt.compare\<close>
  (plain text first, stored hash second). The statement has one text parameter, which the
  server rejects only when it holds the character with code 0.
\<close>

definition User_authenticate ::
  "(string \<Rightarrow> string \<Rightarrow> bool) \<Rightarrow> string \<Rightarrow> string \<Rightarrow> database \<Rightarrow>
   (error + js_object) \<times> database" where
  "User_authenticate compare username password db =
     (let db1 = issue (''SELECT username, password, first_name AS '' @ [dquote] @ ''firstName''
                         @ [dquote] @ '', last_name AS '' @ [dquote] @ ''lastName'' @ [dquote]
                         @ '', email, is_admin AS '' @ [dquote] @ ''isAdmin'' @ [dquote]
                         @ '' FROM users WHERE username = $1'')
                      [JStr username] db
      in case coerce TText (JStr username) of
           Inl e \<Rightarrow> (Inl (ExpressErrorDb e (Some 500)), db1)
         | Inr _ \<Rightarrow>
             (let rows = map user_auth_row (filter (\<lambda>u. u_username u = username) (users db1))
              in case rows of
                   [] \<Rightarrow> (Inl (UnauthorizedError ''Invalid username/password''), db1)
                 | user # _ \<Rightarrow>
                     (case js_get user ''password'' of
                        JStr h \<Rightarrow>
                          if compare password h then (Inr (js_delete user ''password''), db1)
                          else (Inl (UnauthorizedError ''Invalid username/password''), db1)
                      | _ \<Rightarrow> (Inl (RuntimeError ''data and hash arguments required''), db1))))"

text \<open>
  \<open>User.register({username, password, firstName, lastName, email, isAdmin})\<close>. \<open>hash\<close>
  stands for \<open>bcrypt.hash\<close> at the configured work factor.
\<close>

record registration =
  r_username :: string
  r_password :: string
  r_firstName :: string
  r_lastName :: string
  r_email :: string
  r_isAdmin :: bool

definition insert_user :: "user \<Rightarrow> database \<Rightarrow> dberror + (database \<times> js_object)" where
  "insert_user u db =
     (if \<not> list_all text_ok
              [u_username u, u_password u, u_first_name u, u_last_name u, u_email u]
        then Inl (DbError ''22021'')
      else if u_username u \<in> set (map u_username (users db)) then Inl (DbError ''23505'')
      else Inr (db\<lparr>users := users db @ [u]\<rparr>, user_row u))"

definition User_register ::
  "(string \<Rightarrow> string) \<Rightarrow> registration \<Rightarrow> database \<Rightarrow> (error + js_object) \<times> database" where
  "User_register hash reg db =
     (let db1 = issue ''SELECT username FROM users WHERE username = $1'' [JStr (r_username reg)] db
      in case coerce TText (JStr (r_username reg)) of
           Inl e \<Rightarrow> (Inl (ExpressErrorDb e (Some 500)), db1)
         | Inr _ \<Rightarrow>
             (let duplicateCheck = filter (\<lambda>u. u_username u = r_username reg) (users db1)
              in if duplicateCheck \<noteq> []
                 then (Inl (BadRequestError (''Duplicate username: '' @ r_username reg)), db1)
                 else
                   (let hashedPassword = hash (r_password reg);
                        db2 = issue (''INSERT INTO users (username, password, first_name, last_name, ''
                                       @ ''email, is_admin) VALUES ($1, $2, $3, $4, $5, $6) RETURNING ''
                                       @ user_returning)
                                [JStr (r_username reg), JStr hashedPassword, JStr (r_firstName reg),
                                 JStr (r_lastName reg), JStr (r_email reg), JBool (r_isAdmin reg)] db1
                    in case insert_user \<lparr>u_username = r_username reg, u_password = hashedPassword,
                                          u_first_name = r_firstName reg, u_last_name = r_lastName reg,
                                          u_email = r_email reg, u_is_admin = r_isAdmin reg\<rparr> db2 of
                         Inl e \<Rightarrow> (Inl (ExpressErrorDb e (Some 500)), db2)
                       | Inr (db3, user) \<Rightarrow> (Inr user, db3))))"

text \<open>\<open>User.findAll()\<close>.\<close>

definition User_findAll :: "database \<Rightarrow> (error + js_object list) \<times> database" where
  "User_findAll db =
     (let db1 = issue (''SELECT '' @ user_returning @ '' FROM users ORDER BY username'') [] db
      in (Inr (map user_row (sort_key u_username (users db1))), db1))"

text \<open>
  \<open>User.get(username)\<close>. The left join gives one row per application of the user, and
  one row with a null \<open>jobId\<close> for a user without applications.
\<close>

definition user_join_rows :: "database \<Rightarrow> user \<Rightarrow> js_object list" where
  "user_join_rows db u =
     (let apps = filter (\<lambda>a. a_username a = u_username u) (applications db)
      in if apps = [] then [user_row u @ [(''jobId'', JNull)]]
         else map (\<lambda>a. user_row u @ [(''jobId'', JNum (a_job_id a))]) apps)"

definition User_get :: "string \<Rightarrow> database \<Rightarrow> (error + js_object) \<times> database" where
  "User_get username db =
     (let db1 = issue (''SELECT u.username, u.first_name AS '' @ [dquote] @ ''firstName''
                         @ [dquote] @ '', u.last_name AS '' @ [dquote] @ ''lastName'' @ [dquote]
                         @ '', u.email, u.is_admin AS '' @ [dquote] @ ''isAdmin'' @ [dquote]
                         @ '', a.job_id AS '' @ [dquote] @ ''jobId'' @ [dquote]
                         @ '' FROM users u LEFT JOIN applications a ON u.username = a.username''
                         @ '' WHERE u.username = $1'')
                      [JStr username] db
      in case coerce TText (JStr username) of
           Inl e \<Rightarrow> (Inl (ExpressErrorDb e (Some 500)), db1)
         | Inr _ \<Rightarrow>
             (let rows = concat (map (user_join_rows db1)
                                   (filter (\<lambda>u. u_username u = username) (users db1)))
              in case rows of
                   [] \<Rightarrow> (Inl (NotFoundError (''No username found: '' @ username)), db1)
                 | user # _ \<Rightarrow>
                     (let jobs = map (\<lambda>row. js_get row ''jobId'') rows;
                          filteredJobs = filter (\<lambda>job. job \<noteq> JNull) jobs
                      in (Inr [(''username'', js_get user ''username''),
                               (''firstName'', js_get user ''firstName''),
                               (''lastName'', js_get user ''lastName''),
                               (''email'', js_get user ''email''),
                               (''isAdmin'', js_get user ''isAdmin''),
                               (''jobs'', JArr filteredJobs)], db1))))"

definition update_users ::
  "(string \<times> nat) list \<Rightarrow> jsval list \<Rightarrow> nat \<Rightarrow> database \<Rightarrow>
   dberror + (database \<times> js_object list)" where
  "update_users sets ps k db =
     (case run_update user_schema put_user TText (\<lambda>u. SText (u_username u)) sets ps k
             (users db) of
        Inl e \<Rightarrow> Inl e
      | Inr (rows', changed) \<Rightarrow>
          if \<not> distinct (map u_username rows') then Inl (DbError ''23505'')
          else if list_ex (\<lambda>p. u_username (fst p) \<noteq> u_username (snd p)
                                \<and> u_username (fst p) \<in> set (map a_username (applications db)))
                    changed
            then Inl (DbError ''23503'')
          else Inr (db\<lparr>users := rows'\<rparr>, map (\<lambda>p. user_row (snd p)) changed))"

text \<open>
  \<open>User.update(username, data)\<close>. A truthy \<open>data.password\<close> is replaced by its hash
  before the statement is built; the hashing library rejects anything but a string. The
  list of jobs is attached only when the second query returns a row.
\<close>

definition hash_password :: "(string \<Rightarrow> string) \<Rightarrow> js_object \<Rightarrow> error + js_object" where
  "hash_password hash data =
     (if truthy (js_get data ''password'') then
        (case js_get data ''password'' of
           JStr p \<Rightarrow> Inr (js_set data ''password'' (JStr (hash p)))
         | _ \<Rightarrow> Inl (RuntimeError ''data must be a string or Buffer''))
      else Inr data)"

definition User_update ::
  "(string \<Rightarrow> string) \<Rightarrow> string \<Rightarrow> js_object \<Rightarrow> database \<Rightarrow>
   (error + js_object) \<times> database" where
  "User_update hash username data0 db =
     (case hash_password hash data0 of
        Inl e \<Rightarrow> (Inl e, db)
      | Inr data \<Rightarrow>
          (case sqlForPartialUpdate data
                  [(''firstName'', ''first_name''), (''lastName'', ''last_name''),
                   (''isAdmin'', ''is_admin'')] of
             Inl e \<Rightarrow> (Inl e, db)
           | Inr pu \<Rightarrow>
               (let usernameVarIdx = ''$'' @ show_nat (length (valuesArr pu) + 1);
                    querySql = ''UPDATE users SET '' @ setCols pu @ '' WHERE username = ''
                                 @ usernameVarIdx @ '' RETURNING '' @ user_returning;
                    params = valuesArr pu @ [JStr username];
                    db1 = issue querySql params db
                in case update_users (assigns pu) params (length (valuesArr pu) + 1) db1 of
                     Inl e \<Rightarrow> (Inl (ExpressErrorDb e (Some 500)), db1)
                   | Inr (db2, rows) \<Rightarrow>
                       (case rows of
                          [] \<Rightarrow> (Inl (NotFoundError (''No user: '' @ username)), db2)
                        | user0 # _ \<Rightarrow>
                            (let user = js_delete user0 ''password'';
                                 db3 = issue (''SELECT job_id AS '' @ [dquote] @ ''jobId''
                                                @ [dquote]
                                                @ '' FROM applications WHERE username = $1'')
                                         [js_get user ''username''] db2;
                                 userJobs = map (\<lambda>a. [(''jobId'', JNum (a_job_id a))])
                                              (filter (\<lambda>a. JStr (a_username a) = js_get user ''username'')
                                                 (applications db3))
                             in (Inr (if length userJobs \<noteq> 0
                                      then js_set user ''jobs''
                                             (JArr (map (\<lambda>row. js_get row ''jobId'') userJobs))
                                      else user), db3))))))"

section \<open>Job applications (models/jobApplication.js)\<close>

text \<open>The three look-ups of \<open>apply\<close>; each coerces its parameters as the server does.\<close>

definition select_job_ids :: "jsval \<Rightarrow> database \<Rightarrow> dberror + js_object list" where
  "select_job_ids jobId db =
     (case coerce TInt jobId of
        Inl e \<Rightarrow> Inl e
      | Inr k \<Rightarrow>
          Inr (map (\<lambda>j. [(''id'', JNum (j_id j))])
                 (filter (\<lambda>j. k \<noteq> SNull \<and> SInt (j_id j) = k) (jobs db))))"

definition select_usernames :: "jsval \<Rightarrow> database \<Rightarrow> dberror + js_object list" where
  "select_usernames username db =
     (case coerce TText username of
        Inl e \<Rightarrow> Inl e
      | Inr k \<Rightarrow>
          Inr (map (\<lambda>u. [(''username'', JStr (u_username u))])
                 (filter (\<lambda>u. k \<noteq> SNull \<and> SText (u_username u) = k) (users db))))"

definition select_application :: "jsval \<Rightarrow> jsval \<Rightarrow> database \<Rightarrow> dberror + js_object list" where
  "select_application username jobId db =
     (case coerce TText username of
        Inl e \<Rightarrow> Inl e
      | Inr ku \<Rightarrow>
          (case coerce TInt jobId of
             Inl e \<Rightarrow> Inl e
           | Inr kj \<Rightarrow>
               Inr (map (\<lambda>a. [(''job_id'', JNum (a_job_id a))])
                      (filter (\<lambda>a. ku \<noteq> SNull \<and> kj \<noteq> SNull \<and>
                                    SText (a_username a) = ku \<and> SInt (a_job_id a) = kj)
                         (applications db)))))"

text \<open>
  \<open>INSERT INTO applications (username, job_id) VALUES ($1, $2) RETURNING username,
  job_id as "jobId"\<close>. The pair is the key of the table, and both columns refer to
  existing rows.
\<close>

definition insert_application ::
  "jsval \<Rightarrow> jsval \<Rightarrow> database \<Rightarrow> dberror + (database \<times> js_object)" where
  "insert_application username jobId db =
     (case coerce TText username of
        Inl e \<Rightarrow> Inl e
      | Inr ku \<Rightarrow>
          (case coerce TInt jobId of
             Inl e \<Rightarrow> Inl e
           | Inr kj \<Rightarrow>
               (case (ku, kj) of
                  (SText u, SInt j) \<Rightarrow>
                    if \<lparr>a_username = u, a_job_id = j\<rparr> \<in> set (applications db)
                      then Inl (DbError ''23505'')
                    else if u \<notin> set (map u_username (users db)) \<or> j \<notin> set (map j_id (jobs db))
                      then Inl (DbError ''23503'')
                    else Inr (db\<lparr>applications := applications db @ [\<lparr>a_username = u, a_job_id = j\<rparr>]\<rparr>,
                              [(''username'', JStr u), (''jobId'', JNum j)])
                | _ \<Rightarrow> Inl (DbError ''23502''))))"

text \<open>
  \<open>JobApplication.apply(username, jobId)\<close>. In the handler of the insert, the message
  for a duplicate key names a variable \<open>id\<close> that is not declared, so that branch ends
  in a \<open>ReferenceError\<close>.
\<close>

definition JobApplication_apply ::
  "jsval \<Rightarrow> jsval \<Rightarrow> database \<Rightarrow> (error + js_object) \<times> database" where
  "JobApplication_apply username jobId db =
     (if username = JUndefined \<or> jobId = JUndefined
      then (Inl (BadRequestError ''Invalid input parameters.''), db)
      else
        (let db1 = issue ''SELECT id FROM jobs WHERE id = $1'' [jobId] db
         in case select_job_ids jobId db1 of
              Inl e \<Rightarrow> (Inl (ExpressErrorDb e (Some 500)), db1)
            | Inr jobIdCheck \<Rightarrow>
                if length jobIdCheck = 0
                then (Inl (NotFoundError ''Job cannot be found.''), db1)
                else
                  (let db2 = issue ''SELECT username FROM users WHERE username = $1''
                               [username] db1
                   in case select_usernames username db2 of
                        Inl e \<Rightarrow> (Inl (ExpressErrorDb e (Some 500)), db2)
                      | Inr validUsernameIdCheck \<Rightarrow>
                          if length validUsernameIdCheck = 0
                          then (Inl (NotFoundError ''Username cannot be found.''), db2)
                          else
                            (let db3 = issue (''SELECT job_id FROM applications WHERE ''
                                                @ ''username = $1 AND job_id = $2'')
                                         [username, jobId] db2
                             in case select_application username jobId db3 of
                                  Inl e \<Rightarrow> (Inl (ExpressErrorDb e (Some 500)), db3)
                                | Inr jobApplicationCheck \<Rightarrow>
                                    if length jobApplicationCheck \<noteq> 0
                                    then (Inl (BadRequestError
                                                 ''Job Application has already been submitted for this job.''),
                                          db3)
                                    else
                                      (let db4 = issue (''INSERT INTO applications (username, job_id) ''
                                                          @ ''VALUES ($1, $2) RETURNING username, job_id as ''
                                                          @ [dquote] @ ''jobId'' @ [dquote])
                                                   [username, jobId] db3
                                       in case insert_application username jobId db4 of
                                            Inl e \<Rightarrow>
                                              if e = DbError ''23505''
                                              then (Inl (RuntimeError ''ReferenceError: id is not defined''), db4)
                                              else (Inl (ExpressErrorDb e (Some 500)), db4)
                                          | Inr (db5, jobApplication) \<Rightarrow>
                                              (Inr [(''applied'', js_get jobApplication ''jobId'')], db5))))))"

section \<open>Authentication middleware (middleware/auth.js)\<close>

text \<open>
  The payload of a token is what \<open>createToken\<close> signed: the username, the admin flag
  (\<open>user.isAdmin || false\<close> of a row of the users table, hence a boolean) and the time of
  issue that the signing library adds. \<open>res.locals.user\<close> holds the payload of the
  request's token or is absent. Of the request, the middleware reads the authorization
  header and the route parameter \<open>username\<close>.
\<close>

record claims =
  cl_username :: string
  cl_isAdmin :: bool
  cl_iat :: nat

record request =
  authorization :: "string option"
  params_username :: "string option"

record response =
  locals_user :: "claims option"

text \<open>What the middleware hands on: \<open>next()\<close> or \<open>next(err)\<close>.\<close>

datatype next_call = Next | NextErr error

text \<open>
  \<open>authHeader.replace(/^[Bb]earer /, "")\<close> and \<open>.trim()\<close>, which removes the white
  space of the language: among the characters of one byte, the ASCII ones and the no-break
  space.
\<close>

definition strip_bearer :: "string \<Rightarrow> string" where
  "strip_bearer h =
     (if startsWith h ''Bearer '' \<or> startsWith h ''bearer '' then drop 7 h else h)"

definition is_space :: "char \<Rightarrow> bool" where
  "is_space c = ((of_char c :: nat) \<in> {9, 10, 11, 12, 13, 32, 160})"

definition js_trim :: "string \<Rightarrow> string" where
  "js_trim s = rev (dropWhile is_space (rev (dropWhile is_space s)))"

text \<open>
  \<open>authenticateJWT\<close>. \<open>verify\<close> stands for \<open>jwt.verify(token, SECRET_KEY)\<close>: the payload
  of a token signed with the server's key, \<open>None\<close> where the library throws. The
  \<open>catch\<close> of the source turns that exception into a plain \<open>next()\<close>.
\<close>

definition authenticateJWT ::
  "(string \<Rightarrow> claims option) \<Rightarrow> request \<Rightarrow> response \<Rightarrow> response \<times> next_call" where
  "authenticateJWT verify req res =
     (case authorization req of
        None \<Rightarrow> (res, Next)
      | Some authHeader \<Rightarrow>
          if authHeader \<noteq> [] then
            (let token = js_trim (strip_bearer authHeader)
             in case verify token of
                  None \<Rightarrow> (res, Next)
                | Some payload \<Rightarrow> (res\<lparr>locals_user := Some payload\<rparr>, Next))
          else (res, Next))"

definition ensureLoggedIn :: "request \<Rightarrow> response \<Rightarrow> next_call" where
  "ensureLoggedIn req res =
     (if locals_user res = None then NextErr (UnauthorizedError ''Unauthorized'') else Next)"

definition onlyAdmin :: "request \<Rightarrow> response \<Rightarrow> next_call" where
  "onlyAdmin req res =
     (case locals_user res of
        None \<Rightarrow> NextErr (UnauthorizedError ''Unauthorized'')
      | Some user \<Rightarrow>
          if \<not> cl_isAdmin user then NextErr (UnauthorizedError ''Unauthorized'') else Next)"

definition ensureCorrectUserOrAdmin :: "request \<Rightarrow> response \<Rightarrow> next_call" where
  "ensureCorrectUserOrAdmin req res =
     (let user = locals_user res; username = params_username req
      in case user of
           None \<Rightarrow> NextErr (UnauthorizedError ''Unauthorized'')
         | Some u \<Rightarrow>
             if cl_isAdmin u \<or> Some (cl_username u) = username then Next
             else NextErr (UnauthorizedError ''Unauthorized''))"

section \<open>The statements of the specification\<close>

subsection \<open>The partial-update builder\<close>

text \<open>
  The fields the builder keeps, in key order: those whose value is not \<open>undefined\<close>.
\<close>

definition kept_keys :: "js_object \<Rightarrow> string list" where
  "kept_keys obj = filter (\<lambda>k. js_get obj k \<noteq> JUndefined) (js_keys obj)"

text \<open>Column names numbered from 1, and the fragment \<open>"c1"=$1, "c2"=$2, ...\<close> of them.\<close>

definition number_from :: "nat \<Rightarrow> string list \<Rightarrow> (string \<times> nat) list" where
  "number_from n cs = map (\<lambda>(i, c). (c, Suc i)) (enumerate n cs)"

definition numbered :: "string list \<Rightarrow> (string \<times> nat) list" where
  "numbered cs = number_from 0 cs"

definition numbered_fragment :: "string list \<Rightarrow> string" where
  "numbered_fragment cs = js_join '', '' (map (\<lambda>(c, i). assignment c i) (numbered cs))"

text \<open>
  The same fragment written out: the \<open>i\<close>-th column in double quotes, \<open>=$\<close> and the
  decimal numeral of \<open>i\<close>, with a comma and a space between two assignments.
\<close>

fun fragment_from :: "nat \<Rightarrow> string list \<Rightarrow> string" where
  "fragment_from i [] = []"
| "fragment_from i [c] = [CHR 0x22] @ c @ [CHR 0x22] @ ''=$'' @ show_nat i"
| "fragment_from i (c # d # cs) =
     [CHR 0x22] @ c @ [CHR 0x22] @ ''=$'' @ show_nat i @ '', '' @ fragment_from (Suc i) (d # cs)"

text \<open>
  The column of a field as the specification words it: the mapped name when the field is
  in the mapping, the field name otherwise.
\<close>

definition claimed_column :: "(string \<times> string) list \<Rightarrow> string \<Rightarrow> string" where
  "claimed_column jsToSql k = (case map_of jsToSql k of None \<Rightarrow> k | Some c \<Rightarrow> c)"

text \<open>
  A field is expanded when its value is a plain object and the mapping has an entry for
  one of its dotted names; the builder then writes one assignment per nested field.
\<close>

definition expands :: "(string \<times> string) list \<Rightarrow> js_object \<Rightarrow> string \<Rightarrow> bool" where
  "expands jsToSql obj k = (is_plain_object (js_get obj k) \<and> has_dotted_key jsToSql k)"

definition no_field_expands :: "(string \<times> string) list \<Rightarrow> js_object \<Rightarrow> bool" where
  "no_field_expands jsToSql obj = (\<forall>k\<in>set (js_keys obj). \<not> expands jsToSql obj k)"

text \<open>
  The column of a name as the amended statement words it: the mapped name when the mapping
  has a non-empty entry for the name, the name itself otherwise.
\<close>

definition mapped_column :: "(string \<times> string) list \<Rightarrow> string \<Rightarrow> string" where
  "mapped_column jsToSql k =
     (case map_of jsToSql k of None \<Rightarrow> k | Some c \<Rightarrow> if c = [] then k else c)"

text \<open>
  The names that every object inherits a member for. The amended statement leaves out an
  update object with such a key that the mapping has no entry for.
\<close>

definition inherited_names :: "string list" where
  "inherited_names =
     [''constructor'', ''__defineGetter__'', ''__defineSetter__'', ''hasOwnProperty'',
      ''__lookupGetter__'', ''__lookupSetter__'', ''isPrototypeOf'', ''propertyIsEnumerable'',
      ''toString'', ''valueOf'', ''__proto__'', ''toLocaleString'']"

definition no_inherited_key :: "(string \<times> string) list \<Rightarrow> js_object \<Rightarrow> bool" where
  "no_inherited_key jsToSql obj =
     (\<forall>k\<in>set (js_keys obj). k \<in> set inherited_names \<longrightarrow> k \<in> set (map fst jsToSql))"

text \<open>
  What one field of the update object contributes, as pairs of column and value: nothing
  when its value is \<open>undefined\<close>; when it is expanded, one pair for each nested field
  whose value is not \<open>undefined\<close>, under the column of the dotted name; otherwise one
  pair, under the column of the field.
\<close>

definition field_items ::
  "(string \<times> string) list \<Rightarrow> js_object \<Rightarrow> string \<Rightarrow> (string \<times> jsval) list" where
  "field_items jsToSql obj k =
     (case js_get obj k of
        JUndefined \<Rightarrow> []
      | JObj entries \<Rightarrow>
          if has_dotted_key jsToSql k
          then map (\<lambda>kv. (mapped_column jsToSql (k @ ''.'' @ fst kv), snd kv))
                 (filter (\<lambda>kv. snd kv \<noteq> JUndefined) entries)
          else [(mapped_column jsToSql k, JObj entries)]
      | v \<Rightarrow> [(mapped_column jsToSql k, v)])"

definition update_items :: "(string \<times> string) list \<Rightarrow> js_object \<Rightarrow> (string \<times> jsval) list" where
  "update_items jsToSql obj = concat (map (field_items jsToSql obj) (js_keys obj))"

text \<open>What a caller destructures from the result: \<open>{ setCols, values }\<close>.\<close>

definition text_and_values :: "error + partial_update \<Rightarrow> error + string \<times> jsval list" where
  "text_and_values r = (case r of Inl e \<Rightarrow> Inl e | Inr pu \<Rightarrow> Inr (setCols pu, valuesArr pu))"

subsection \<open>Example update objects\<close>

definition ex_nested_data :: js_object where
  "ex_nested_data = [(''address'', JObj [(''street'', JStr ''Main'')])]"

definition ex_nested_map :: "(string \<times> string) list" where
  "ex_nested_map = [(''address.street'', ''address_street'')]"

definition ex_update_data :: js_object where
  "ex_update_data =
     [(''firstName'', JStr ''Aliya''), (''middleName'', JUndefined), (''nick'', JNull),
      (''age'', JNum 32)]"

definition ex_update_map :: "(string \<times> string) list" where
  "ex_update_map = [(''firstName'', ''first_name''), (''middleName'', ''middle_name'')]"

text \<open>An update object with a field that is expanded and one that is not.\<close>

definition ex_mixed_data :: js_object where
  "ex_mixed_data =
     [(''address'', JObj [(''street'', JStr ''Main''), (''zip'', JUndefined), (''city'', JNull)]),
      (''age'', JNum 32)]"

text \<open>An update object all of whose values are \<open>undefined\<close>.\<close>

definition all_values_undefined :: "js_object \<Rightarrow> bool" where
  "all_values_undefined obj = (\<forall>kv\<in>set obj. snd kv = JUndefined)"

definition ex_undefined_data :: js_object where
  "ex_undefined_data = [(''name'', JUndefined), (''password'', JUndefined)]"

text \<open>A stand-in for the hashing library, and a store without rows.\<close>

definition ex_hash :: "string \<Rightarrow> string" where
  "ex_hash p = ''$2b$'' @ p"

definition empty_db :: database where
  "empty_db = \<lparr>companies = [], jobs = [], users = [], applications = [], issued = []\<rparr>"

subsection \<open>Authentication examples\<close>

definition ex_claims_u1 :: claims where
  "ex_claims_u1 = \<lparr>cl_username = ''u1'', cl_isAdmin = False, cl_iat = 0\<rparr>"

definition ex_claims_u2 :: claims where
  "ex_claims_u2 = \<lparr>cl_username = ''u2'', cl_isAdmin = False, cl_iat = 0\<rparr>"

definition ex_claims_admin :: claims where
  "ex_claims_admin = \<lparr>cl_username = ''admin'', cl_isAdmin = True, cl_iat = 0\<rparr>"

text \<open>A verifier that accepts one token.\<close>

definition ex_verify :: "string \<Rightarrow> claims option" where
  "ex_verify t = (if t = ''good.token'' then Some ex_claims_u1 else None)"

definition ex_req_good :: request where
  "ex_req_good = \<lparr>authorization = Some ''Bearer good.token'', params_username = Some ''u1''\<rparr>"

definition ex_req_bad :: request where
  "ex_req_bad = \<lparr>authorization = Some ''Bearer forged.token'', params_username = Some ''u1''\<rparr>"

definition ex_req_none :: request where
  "ex_req_none = \<lparr>authorization = None, params_username = Some ''u1''\<rparr>"

definition ex_res_anonymous :: response where
  "ex_res_anonymous = \<lparr>locals_user = None\<rparr>"

subsection \<open>Job applications\<close>

definition job_exists :: "database \<Rightarrow> int \<Rightarrow> bool" where
  "job_exists db j = (j \<in> set (map j_id (jobs db)))"

definition user_exists :: "database \<Rightarrow> string \<Rightarrow> bool" where
  "user_exists db u = (u \<in> set (map u_username (users db)))"

definition has_applied :: "database \<Rightarrow> string \<Rightarrow> int \<Rightarrow> bool" where
  "has_applied db u j = (\<lparr>a_username = u, a_job_id = j\<rparr> \<in> set (applications db))"

subsection \<open>An example store\<close>

text \<open>The rows the test suites insert, and one application of \<open>u1\<close> to the first job.\<close>

definition ex_db :: database where
  "ex_db =
     \<lparr>companies =
        [\<lparr>c_handle = ''c1'', c_name = ''C1'', c_description = ''Desc1'',
          c_num_employees = Some 1, c_logo_url = Some ''http://c1.img''\<rparr>,
         \<lparr>c_handle = ''c2'', c_name = ''C2'', c_description = ''Desc2'',
          c_num_employees = Some 2, c_logo_url = Some ''http://c2.img''\<rparr>,
         \<lparr>c_handle = ''c3'', c_name = ''C3'', c_description = ''Desc3'',
          c_num_employees = Some 3, c_logo_url = Some ''http://c3.img''\<rparr>],
      jobs =
        [\<lparr>j_id = 1, j_title = ''j1'', j_salary = Some 100000, j_equity = Some ''0.1'',
          j_company_handle = ''c1''\<rparr>,
         \<lparr>j_id = 2, j_title = ''j2'', j_salary = Some 200000, j_equity = Some ''0.2'',
          j_company_handle = ''c2''\<rparr>,
         \<lparr>j_id = 3, j_title = ''j3'', j_salary = Some 300000, j_equity = Some ''0'',
          j_company_handle = ''c3''\<rparr>],
      users =
        [\<lparr>u_username = ''u1'', u_password = ex_hash ''password1'', u_first_name = ''U1F'',
          u_last_name = ''U1L'', u_email = ''u1@email.com'', u_is_admin = False\<rparr>,
         \<lparr>u_username = ''u2'', u_password = ex_hash ''password2'', u_first_name = ''U2F'',
          u_last_name = ''U2L'', u_email = ''u2@email.com'', u_is_admin = False\<rparr>],
      applications = [\<lparr>a_username = ''u1'', a_job_id = 1\<rparr>],
      issued = []\<rparr>"

subsection \<open>Users\<close>

text \<open>A returned object without a \<open>password\<close> field.\<close>

definition lacks_password :: "js_object \<Rightarrow> bool" where
  "lacks_password obj = (''password'' \<notin> set (js_keys obj))"

definition ex_compare :: "string \<Rightarrow> string \<Rightarrow> bool" where
  "ex_compare p h = (ex_hash p = h)"

definition ex_registration :: registration where
  "ex_registration =
     \<lparr>r_username = ''new'', r_password = ''password'', r_firstName = ''Test'',
      r_lastName = ''Tester'', r_email = ''test@test.com'', r_isAdmin = False\<rparr>"

text \<open>The job ids of a user's applications, as the list a returned user object carries.\<close>

definition applied_ids :: "database \<Rightarrow> string \<Rightarrow> jsval list" where
  "applied_ids db name =
     map (\<lambda>a. JNum (a_job_id a)) (filter (\<lambda>a. a_username a = name) (applications db))"

text \<open>
  An update object none of whose keys holds a double quote, so that each key is spliced
  into the statement as one column name.
\<close>

definition quote_free :: "js_object \<Rightarrow> bool" where
  "quote_free obj = (\<forall>k\<in>set (js_keys obj). dquote \<notin> set k)"

text \<open>The mapping \<open>User.update\<close> passes to the builder.\<close>

definition user_jsToSql :: "(string \<times> string) list" where
  "user_jsToSql = [(''firstName'', ''first_name''), (''lastName'', ''last_name''),
                   (''isAdmin'', ''is_admin'')]"

subsection \<open>Filters of \<open>findAll\<close>\<close>

text \<open>A search string in which no character is special to \<open>LIKE\<close>.\<close>

definition no_meta :: "string \<Rightarrow> bool" where
  "no_meta p = (percent \<notin> set p \<and> underscore \<notin> set p \<and> backslash \<notin> set p)"

text \<open>\<open>s\<close> contains \<open>p\<close> as a substring when case is ignored.\<close>

definition contains_ci :: "string \<Rightarrow> string \<Rightarrow> bool" where
  "contains_ci s p = sublist (sql_lower p) (sql_lower s)"

text \<open>
  An integer as the API passes it, to a filter or as a job id: a number, or a decimal
  string (the digits of a query or route parameter, with an optional sign and possibly
  white space around), in either case within the range of the database's integers.
\<close>

definition in_range :: "int \<Rightarrow> int option" where
  "in_range n = (if - (2 ^ 31) \<le> n \<and> n < 2 ^ 31 then Some n else None)"

definition int_param :: "jsval \<Rightarrow> int option" where
  "int_param v =
     (case v of
        JNum n \<Rightarrow> in_range n
      | JStr s \<Rightarrow> (case parse_int s of None \<Rightarrow> None | Some n \<Rightarrow> in_range n)
      | _ \<Rightarrow> None)"

definition int_or_absent :: "jsval \<Rightarrow> bool" where
  "int_or_absent v = (v = JUndefined \<or> int_param v \<noteq> None)"

text \<open>A string the database takes as text: one without the character with code 0.\<close>

definition text_or_absent :: "jsval \<Rightarrow> bool" where
  "text_or_absent v = (case v of JUndefined \<Rightarrow> True | JStr s \<Rightarrow> text_ok s | _ \<Rightarrow> False)"

definition like_plain :: "jsval \<Rightarrow> bool" where
  "like_plain v =
     (case v of JUndefined \<Rightarrow> True | JStr s \<Rightarrow> text_ok s \<and> no_meta s | _ \<Rightarrow> False)"

text \<open>The predicates of the filters; a filter that is not supplied holds of every row.\<close>

definition at_least :: "int option \<Rightarrow> jsval \<Rightarrow> bool" where
  "at_least col v =
     (case int_param v of
        None \<Rightarrow> True
      | Some m \<Rightarrow> (case col of None \<Rightarrow> False | Some n \<Rightarrow> n \<ge> m))"

definition at_most :: "int option \<Rightarrow> jsval \<Rightarrow> bool" where
  "at_most col v =
     (case int_param v of
        None \<Rightarrow> True
      | Some m \<Rightarrow> (case col of None \<Rightarrow> False | Some n \<Rightarrow> n \<le> m))"

definition text_contains :: "string \<Rightarrow> jsval \<Rightarrow> bool" where
  "text_contains s v = (case v of JStr p \<Rightarrow> contains_ci s p | _ \<Rightarrow> True)"

definition company_filters_typed :: "js_object \<Rightarrow> bool" where
  "company_filters_typed f =
     (int_or_absent (js_get f ''minEmployees'') \<and> int_or_absent (js_get f ''maxEmployees'')
      \<and> like_plain (js_get f ''nameLike''))"

definition company_satisfies :: "js_object \<Rightarrow> company \<Rightarrow> bool" where
  "company_satisfies f c =
     (at_least (c_num_employees c) (js_get f ''minEmployees'')
      \<and> at_most (c_num_employees c) (js_get f ''maxEmployees'')
      \<and> text_contains (c_name c) (js_get f ''nameLike''))"

text \<open>The flag is set: it is \<open>true\<close>, or a value that \<open>==\<close> the string \<open>'true'\<close>.\<close>

definition has_equity_flag :: "jsval \<Rightarrow> bool" where
  "has_equity_flag v = (v = JBool True \<or> loose_eq_true v)"

definition positive_equity :: "job \<Rightarrow> bool" where
  "positive_equity j = (case equity_value j of None \<Rightarrow> False | Some r \<Rightarrow> r > 0)"

definition title_is :: "string \<Rightarrow> jsval \<Rightarrow> bool" where
  "title_is s v = (case v of JStr t \<Rightarrow> s = t | _ \<Rightarrow> True)"

definition job_filters_typed :: "js_object \<Rightarrow> bool" where
  "job_filters_typed f =
     (int_or_absent (js_get f ''minSalary'') \<and> like_plain (js_get f ''titleLike'')
      \<and> text_or_absent (js_get f ''title''))"

definition job_satisfies :: "js_object \<Rightarrow> job \<Rightarrow> bool" where
  "job_satisfies f j =
     (at_least (j_salary j) (js_get f ''minSalary'')
      \<and> text_contains (j_title j) (js_get f ''titleLike'')
      \<and> title_is (j_title j) (js_get f ''title'')
      \<and> (has_equity_flag (js_get f ''hasEquity'') \<longrightarrow> positive_equity j))"

definition ex_company_filters :: js_object where
  "ex_company_filters =
     [(''minEmployees'', JNum 2), (''maxEmployees'', JNum 3), (''nameLike'', JStr ''c'')]"

definition ex_job_filters :: js_object where
  "ex_job_filters =
     [(''minSalary'', JNum 150000), (''hasEquity'', JBool True), (''titleLike'', JStr ''J'')]"

definition ex_wildcard_name :: js_object where
  "ex_wildcard_name = [(''nameLike'', JStr ''_'')]"

definition ex_wildcard_title :: js_object where
  "ex_wildcard_title = [(''titleLike'', JStr ''_'')]"

section \<open>Properties of the partial-update builder\<close>

lemma number_from_Nil [simp]: "number_from n [] = []"
  by (simp add: number_from_def)

lemma number_from_Cons [simp]: "number_from n (c # cs) = (c, Suc n) # number_from (Suc n) cs"
  by (simp add: number_from_def)

lemma number_from_append:
  "number_from n (xs @ ys) = number_from n xs @ number_from (n + length xs) ys"
  by (simp add: number_from_def enumerate_append_eq)

lemma push_key_plain:
  assumes "\<not> expands jsToSql obj k"
  shows "push_key obj jsToSql k (cols, vals) =
    (if js_get obj k \<noteq> JUndefined
     then (cols @ [(sqlKey_of jsToSql k, Suc (length vals))], vals @ [js_get obj k])
     else (cols, vals))"
  using assms by (cases "js_get obj k") (simp_all add: push_key_def expands_def)

lemma push_keys_plain:
  assumes "\<forall>k\<in>set ks. \<not> expands jsToSql obj k"
  shows "push_keys obj jsToSql ks (cols, vals) =
    (cols @ number_from (length vals)
              (map (sqlKey_of jsToSql) (filter (\<lambda>k. js_get obj k \<noteq> JUndefined) ks)),
     vals @ map (js_get obj) (filter (\<lambda>k. js_get obj k \<noteq> JUndefined) ks))"
  using assms
proof (induction ks arbitrary: cols vals)
  case Nil
  then show ?case by simp
next
  case (Cons k ks)
  then show ?case by (simp add: push_key_plain)
qed

lemma sqlForPartialUpdate_plain:
  assumes "js_keys obj \<noteq> []"
    and "no_field_expands jsToSql obj"
  shows "sqlForPartialUpdate obj jsToSql =
    Inr \<lparr>setCols = numbered_fragment (map (sqlKey_of jsToSql) (kept_keys obj)),
         valuesArr = map (js_get obj) (kept_keys obj),
         assigns = numbered (map (sqlKey_of jsToSql) (kept_keys obj))\<rparr>"
  using assms
  by (simp add: sqlForPartialUpdate_def Let_def push_keys_plain numbered_fragment_def
        numbered_def kept_keys_def no_field_expands_def)

lemma show_nat_digit: "n < 10 \<Longrightarrow> show_nat n = [digit_char n]"
  by (simp add: show_nat.simps)

lemma inherited_names_prototype: "map fst object_prototype = inherited_names"
  by (simp add: object_prototype_def inherited_names_def)

lemma not_inherited:
  assumes "k \<notin> set inherited_names"
  shows "map_of object_prototype k = None"
proof -
  from assms have "k \<notin> fst ` set object_prototype"
    using inherited_names_prototype by (metis set_map)
  then show ?thesis by (simp add: map_of_eq_None_iff)
qed

lemma dotted_not_inherited: "k @ CHR ''.'' # nk \<notin> set inherited_names"
proof
  assume "k @ CHR ''.'' # nk \<in> set inherited_names"
  moreover have "\<forall>s\<in>set inherited_names. CHR ''.'' \<notin> set s"
    by (simp add: inherited_names_def)
  ultimately have "CHR ''.'' \<notin> set (k @ CHR ''.'' # nk)" by blast
  then show False by simp
qed

lemma sqlKey_of_mapped:
  assumes "k \<in> set inherited_names \<longrightarrow> k \<in> set (map fst jsToSql)"
  shows "sqlKey_of jsToSql k = mapped_column jsToSql k"
proof (cases "map_of jsToSql k")
  case None
  then have "k \<notin> set (map fst jsToSql)" by (simp add: map_of_eq_None_iff)
  with assms have "k \<notin> set inherited_names" by blast
  with None show ?thesis by (simp add: sqlKey_of_def mapped_column_def not_inherited)
next
  case (Some c)
  then show ?thesis by (simp add: sqlKey_of_def mapped_column_def)
qed

lemma sqlKey_of_dotted:
  "sqlKey_of jsToSql (k @ CHR ''.'' # nk) = mapped_column jsToSql (k @ CHR ''.'' # nk)"
  by (rule sqlKey_of_mapped) (simp add: dotted_not_inherited)

lemma push_nested_items:
  "push_nested jsToSql k entries (cols, vals) =
    (cols @ number_from (length vals)
              (map (\<lambda>kv. mapped_column jsToSql (k @ ''.'' @ fst kv))
                 (filter (\<lambda>kv. snd kv \<noteq> JUndefined) entries)),
     vals @ map snd (filter (\<lambda>kv. snd kv \<noteq> JUndefined) entries))"
proof (induction entries arbitrary: cols vals)
  case Nil
  then show ?case by simp
next
  case (Cons e entries)
  obtain nk nv where e: "e = (nk, nv)" by (cases e)
  show ?case
    unfolding e by (simp add: Cons.IH sqlKey_of_dotted)
qed

lemma push_key_items:
  assumes "k \<in> set inherited_names \<longrightarrow> k \<in> set (map fst jsToSql)"
  shows "push_key obj jsToSql k (cols, vals) =
    (cols @ number_from (length vals) (map fst (field_items jsToSql obj k)),
     vals @ map snd (field_items jsToSql obj k))"
  by (cases "js_get obj k")
     (simp_all add: push_key_def field_items_def push_nested_items sqlKey_of_mapped [OF assms]
        comp_def)

lemma push_keys_items:
  assumes "\<forall>k\<in>set ks. k \<in> set inherited_names \<longrightarrow> k \<in> set (map fst jsToSql)"
  shows "push_keys obj jsToSql ks (cols, vals) =
    (cols @ number_from (length vals) (map fst (concat (map (field_items jsToSql obj) ks))),
     vals @ map snd (concat (map (field_items jsToSql obj) ks)))"
  using assms
proof (induction ks arbitrary: cols vals)
  case Nil
  then show ?case by simp
next
  case (Cons k ks)
  then show ?case by (simp add: push_key_items number_from_append)
qed

lemma fragment_join:
  "js_join '', '' (map (\<lambda>(c, i). assignment c i) (number_from n cs)) = fragment_from (Suc n) cs"
proof (induction cs arbitrary: n)
  case Nil
  then show ?case by simp
next
  case (Cons c cs)
  show ?case
  proof (cases cs)
    case Nil
    then show ?thesis by (simp add: assignment_def dquote_def)
  next
    case (Cons d ds)
    with Cons.IH [of "Suc n"] show ?thesis by (simp add: assignment_def dquote_def)
  qed
qed

lemma field_items_plain:
  assumes "\<not> expands jsToSql obj k"
  shows "field_items jsToSql obj k =
    (if js_get obj k \<noteq> JUndefined then [(mapped_column jsToSql k, js_get obj k)] else [])"
  using assms by (cases "js_get obj k") (simp_all add: field_items_def expands_def)

lemma update_items_plain:
  assumes "\<forall>k\<in>set ks. \<not> expands jsToSql obj k"
  shows "concat (map (field_items jsToSql obj) ks) =
    map (\<lambda>k. (mapped_column jsToSql k, js_get obj k)) (filter (\<lambda>k. js_get obj k \<noteq> JUndefined) ks)"
  using assms by (induction ks) (simp_all add: field_items_plain)

text \<open>
  C1, as amended. For every update object with at least one key, none of whose keys is
  the name of a member of \<open>Object.prototype\<close> that the mapping has no entry for,
  \<open>sqlForPartialUpdate\<close> returns the fragment \<open>"c1"=$1, ..., "cn"=$n\<close>, numbered
  consecutively from 1, and the values \<open>v1, ..., vn\<close> in the same order, where the pairs
  of column and value are what the fields contribute, in key order. A field whose value is
  \<open>undefined\<close> contributes nothing. A field whose value is a plain object, when the
  mapping has a key that begins with the field's name and a dot, contributes one pair for
  each nested field whose value is not \<open>undefined\<close>: the column of the dotted name and the
  nested value. Every other field, one whose value is \<open>null\<close> included, contributes its
  column and its value. The column of a name is \<open>jsToSql[name]\<close> when that is a non-empty
  string and the name itself otherwise. When no field is expanded, the pairs are those of
  the fields whose value is not \<open>undefined\<close>.
\<close>

theorem sqlForPartialUpdate_fragment:
  assumes "js_keys obj \<noteq> []"
    and "no_inherited_key jsToSql obj"
  shows "text_and_values (sqlForPartialUpdate obj jsToSql) =
      Inr (fragment_from 1 (map fst (update_items jsToSql obj)),
           map snd (update_items jsToSql obj))
   \<and> (no_field_expands jsToSql obj \<longrightarrow>
        update_items jsToSql obj =
          map (\<lambda>k. (mapped_column jsToSql k, js_get obj k)) (kept_keys obj))"
proof
  from assms(2) have
    "\<forall>k\<in>set (js_keys obj). k \<in> set inherited_names \<longrightarrow> k \<in> set (map fst jsToSql)"
    by (simp add: no_inherited_key_def)
  from push_keys_items [OF this, of obj "[]" "[]"] assms(1)
  show "text_and_values (sqlForPartialUpdate obj jsToSql) =
      Inr (fragment_from 1 (map fst (update_items jsToSql obj)),
           map snd (update_items jsToSql obj))"
    by (simp add: sqlForPartialUpdate_def Let_def text_and_values_def update_items_def
          fragment_join)
next
  show "no_field_expands jsToSql obj \<longrightarrow>
        update_items jsToSql obj =
          map (\<lambda>k. (mapped_column jsToSql k, js_get obj k)) (kept_keys obj)"
    by (simp add: no_field_expands_def update_items_def kept_keys_def update_items_plain)
qed

theorem sqlForPartialUpdate_fragment_witness:
  "js_keys ex_update_data \<noteq> []
   \<and> no_inherited_key ex_update_map ex_update_data
   \<and> no_field_expands ex_update_map ex_update_data
   \<and> text_and_values (sqlForPartialUpdate ex_update_data ex_update_map) =
       Inr ([dquote] @ ''first_name'' @ [dquote] @ ''=$1, '' @ [dquote] @ ''nick'' @ [dquote]
              @ ''=$2, '' @ [dquote] @ ''age'' @ [dquote] @ ''=$3'',
            [JStr ''Aliya'', JNull, JNum 32])
   \<and> js_keys ex_mixed_data \<noteq> []
   \<and> no_inherited_key ex_nested_map ex_mixed_data
   \<and> text_and_values (sqlForPartialUpdate ex_mixed_data ex_nested_map) =
       Inr ([dquote] @ ''address_street'' @ [dquote] @ ''=$1, '' @ [dquote] @ ''address.city''
              @ [dquote] @ ''=$2, '' @ [dquote] @ ''age'' @ [dquote] @ ''=$3'',
            [JStr ''Main'', JNull, JNum 32])"
proof -
  have h1: "js_keys ex_update_data \<noteq> []"
    by (simp add: ex_update_data_def js_keys_def)
  have h2: "no_inherited_key ex_update_map ex_update_data"
    by code_simp
  have h3: "no_field_expands ex_update_map ex_update_data"
    by code_simp
  have e1: "(fragment_from 1 (map fst (update_items ex_update_map ex_update_data)),
             map snd (update_items ex_update_map ex_update_data)) =
            ([dquote] @ ''first_name'' @ [dquote] @ ''=$1, '' @ [dquote] @ ''nick'' @ [dquote]
               @ ''=$2, '' @ [dquote] @ ''age'' @ [dquote] @ ''=$3'',
             [JStr ''Aliya'', JNull, JNum 32])"
    by code_simp
  have g1: "js_keys ex_mixed_data \<noteq> []"
    by (simp add: ex_mixed_data_def js_keys_def)
  have g2: "no_inherited_key ex_nested_map ex_mixed_data"
    by code_simp
  have e2: "(fragment_from 1 (map fst (update_items ex_nested_map ex_mixed_data)),
             map snd (update_items ex_nested_map ex_mixed_data)) =
            ([dquote] @ ''address_street'' @ [dquote] @ ''=$1, '' @ [dquote] @ ''address.city''
              @ [dquote] @ ''=$2, '' @ [dquote] @ ''age'' @ [dquote] @ ''=$3'',
            [JStr ''Main'', JNull, JNum 32])"
    by code_simp
  show ?thesis
    using h1 h2 h3 g1 g2 sqlForPartialUpdate_fragment [OF h1 h2] sqlForPartialUpdate_fragment [OF g1 g2]
    unfolding e1 [symmetric] e2 [symmetric] by simp
qed

text \<open>
  C1 as stated fails on a nested object whose dotted names are in the mapping: the object
  below has one key with a defined value, and the builder returns the assignment of the
  nested field (\<open>"address_street"=$1\<close> with the value \<open>'Main'\<close>) where the claim has
  \<open>"address"=$1\<close> with the object as its value.
\<close>

theorem sqlForPartialUpdate_nested_counterexample:
  "js_keys ex_nested_data \<noteq> []
   \<and> JUndefined \<notin> set (map snd ex_nested_data)
   \<and> text_and_values (sqlForPartialUpdate ex_nested_data ex_nested_map) \<noteq>
       Inr (numbered_fragment (map (claimed_column ex_nested_map) (kept_keys ex_nested_data)),
            map (js_get ex_nested_data) (kept_keys ex_nested_data))"
  by (simp add: ex_nested_data_def ex_nested_map_def js_keys_def kept_keys_def js_get_def
        sqlForPartialUpdate_def push_key_def has_dotted_key_def startsWith_def text_and_values_def)

section \<open>Updates with nothing to set\<close>

lemma js_get_all_undefined:
  assumes "all_values_undefined obj"
  shows "js_get obj k = JUndefined"
proof (cases "map_of obj k")
  case None
  then show ?thesis by (simp add: js_get_def)
next
  case (Some v)
  then have "(k, v) \<in> set obj" by (rule map_of_SomeD)
  with assms have "v = JUndefined" by (auto simp: all_values_undefined_def)
  with Some show ?thesis by (simp add: js_get_def)
qed

lemma all_undefined_plain:
  assumes "all_values_undefined obj"
  shows "no_field_expands jsToSql obj" and "kept_keys obj = []"
  using assms
  by (simp_all add: no_field_expands_def expands_def kept_keys_def js_get_all_undefined)

lemma sqlForPartialUpdate_all_undefined:
  assumes "js_keys obj \<noteq> []" and "all_values_undefined obj"
  shows "sqlForPartialUpdate obj jsToSql = Inr \<lparr>setCols = [], valuesArr = [], assigns = []\<rparr>"
  using sqlForPartialUpdate_plain [OF assms(1) all_undefined_plain(1) [OF assms(2)], of jsToSql]
  by (simp add: all_undefined_plain(2) [OF assms(2)] numbered_fragment_def numbered_def)

lemma hash_password_all_undefined:
  "all_values_undefined obj \<Longrightarrow> hash_password hash obj = Inr obj"
  by (simp add: hash_password_def js_get_all_undefined)

text \<open>
  C2. Each of \<open>Company.update\<close>, \<open>Job.update\<close> and \<open>User.update\<close>, called with an object
  that has no keys, raises the BadRequest error "No data", and the store it leaves is the
  store it was given: no statement has been issued and no table has changed.
\<close>

theorem update_empty_data_rejected:
  "Company_update handle [] db = (Inl (BadRequestError ''No data''), db)
   \<and> Job_update id' [] db = (Inl (BadRequestError ''No data''), db)
   \<and> User_update hash username [] db = (Inl (BadRequestError ''No data''), db)"
  by (simp add: Company_update_def Job_update_def User_update_def sqlForPartialUpdate_def
        js_keys_def hash_password_def js_get_def)

theorem update_empty_data_rejected_witness:
  "Company_update ''c1'' [] empty_db = (Inl (BadRequestError ''No data''), empty_db)
   \<and> Job_update 1 [] empty_db = (Inl (BadRequestError ''No data''), empty_db)
   \<and> User_update ex_hash ''u1'' [] empty_db = (Inl (BadRequestError ''No data''), empty_db)"
  using update_empty_data_rejected [of "''c1''" empty_db 1 ex_hash "''u1''"] by simp

text \<open>
  C10. For an update object that has keys, all with the value \<open>undefined\<close>, the builder
  does not raise "No data": it returns the empty string and the empty list. Each of the
  three update operations then issues its UPDATE statement with nothing between \<open>SET\<close> and
  \<open>WHERE\<close>, and what the caller gets is the database's rejection of that statement, not
  the BadRequest error.
\<close>

theorem all_undefined_reaches_database:
  assumes "js_keys data \<noteq> []" and "all_values_undefined data"
  shows "text_and_values (sqlForPartialUpdate data jsToSql) = Inr ([], [])
   \<and> Company_update handle data db =
       (Inl (ExpressErrorDb (DbError ''42601'') None),
        issue (''UPDATE companies SET '' @ [] @ '' WHERE handle = $1 RETURNING '' @ company_returning)
          [JStr handle] db)
   \<and> Job_update id' data db =
       (Inl (DriverError (DbError ''42601'')),
        issue (''UPDATE jobs SET '' @ [] @ '' WHERE id = $1 RETURNING '' @ job_returning)
          [JNum id'] db)
   \<and> User_update hash username data db =
       (Inl (ExpressErrorDb (DbError ''42601'') (Some 500)),
        issue (''UPDATE users SET '' @ [] @ '' WHERE username = $1 RETURNING '' @ user_returning)
          [JStr username] db)"
  using assms
  by (simp add: sqlForPartialUpdate_all_undefined text_and_values_def Company_update_def
        Job_update_def User_update_def hash_password_all_undefined update_companies_def
        update_jobs_def update_users_def run_update_def show_nat_digit digit_char_def)

theorem all_undefined_reaches_database_witness:
  "js_keys ex_undefined_data \<noteq> [] \<and> all_values_undefined ex_undefined_data
   \<and> text_and_values (sqlForPartialUpdate ex_undefined_data []) = Inr ([], [])
   \<and> issued (snd (Company_update ''c1'' ex_undefined_data empty_db)) =
        [(''UPDATE companies SET  WHERE handle = $1 RETURNING '' @ company_returning, [JStr ''c1''])]
   \<and> issued (snd (Job_update 1 ex_undefined_data empty_db)) =
        [(''UPDATE jobs SET  WHERE id = $1 RETURNING '' @ job_returning, [JNum 1])]
   \<and> issued (snd (User_update ex_hash ''u1'' ex_undefined_data empty_db)) =
        [(''UPDATE users SET  WHERE username = $1 RETURNING '' @ user_returning, [JStr ''u1''])]"
proof -
  have h1: "js_keys ex_undefined_data \<noteq> []"
    by (simp add: ex_undefined_data_def js_keys_def)
  have h2: "all_values_undefined ex_undefined_data"
    by (simp add: ex_undefined_data_def all_values_undefined_def)
  show ?thesis
    using h1 h2 all_undefined_reaches_database [OF h1 h2, of "[]" "''c1''" empty_db 1 ex_hash "''u1''"]
    by (simp add: issue_def empty_db_def)
qed

section \<open>Authentication middleware\<close>

text \<open>
  C4. \<open>authenticateJWT\<close> always continues with a plain \<open>next()\<close>. A request without an
  authorization header, with an empty one, or with one whose token does not verify (a
  malformed header, a forged or expired token) leaves the response context as it was,
  which is what a request without the header gets. The context changes only when the
  header's token verifies, and then it holds the decoded claims.
\<close>

theorem authenticateJWT_fails_open:
  "snd (authenticateJWT verify req res) = Next
   \<and> (authorization req = None \<longrightarrow> fst (authenticateJWT verify req res) = res)
   \<and> (\<forall>h. authorization req = Some h \<and> (h = [] \<or> verify (js_trim (strip_bearer h)) = None)
          \<longrightarrow> fst (authenticateJWT verify req res) = res
              \<and> authenticateJWT verify req res
                  = authenticateJWT verify (req\<lparr>authorization := None\<rparr>) res)
   \<and> (\<forall>h c. authorization req = Some h \<and> h \<noteq> [] \<and> verify (js_trim (strip_bearer h)) = Some c
          \<longrightarrow> fst (authenticateJWT verify req res) = res\<lparr>locals_user := Some c\<rparr>)
   \<and> (fst (authenticateJWT verify req res) \<noteq> res
          \<longrightarrow> (\<exists>h c. authorization req = Some h \<and> verify (js_trim (strip_bearer h)) = Some c
                     \<and> locals_user (fst (authenticateJWT verify req res)) = Some c))"
  by (auto simp: authenticateJWT_def Let_def split: option.splits)

theorem authenticateJWT_fails_open_witness:
  "authenticateJWT ex_verify ex_req_none ex_res_anonymous = (ex_res_anonymous, Next)
   \<and> authenticateJWT ex_verify ex_req_bad ex_res_anonymous = (ex_res_anonymous, Next)
   \<and> authenticateJWT ex_verify ex_req_good ex_res_anonymous
       = (\<lparr>locals_user = Some ex_claims_u1\<rparr>, Next)"
proof -
  have none: "authorization ex_req_none = None"
    by (simp add: ex_req_none_def)
  have bad: "authorization ex_req_bad = Some ''Bearer forged.token''
             \<and> (''Bearer forged.token'' = [] \<or> ex_verify (js_trim (strip_bearer ''Bearer forged.token'')) = None)"
    by (simp add: ex_req_bad_def ex_verify_def js_trim_def strip_bearer_def startsWith_def is_space_def)
  have good: "authorization ex_req_good = Some ''Bearer good.token'' \<and> ''Bearer good.token'' \<noteq> []
              \<and> ex_verify (js_trim (strip_bearer ''Bearer good.token'')) = Some ex_claims_u1"
    by (simp add: ex_req_good_def ex_verify_def js_trim_def strip_bearer_def startsWith_def is_space_def)
  show ?thesis
    using none bad good
      authenticateJWT_fails_open [of ex_verify ex_req_none ex_res_anonymous]
      authenticateJWT_fails_open [of ex_verify ex_req_bad ex_res_anonymous]
      authenticateJWT_fails_open [of ex_verify ex_req_good ex_res_anonymous]
    by (simp add: prod_eq_iff ex_res_anonymous_def)
qed

text \<open>
  C5. The three guards. \<open>ensureLoggedIn\<close> hands on an Unauthorized error exactly when no
  claims are attached. \<open>onlyAdmin\<close> does so exactly when no claims are attached or the
  attached claims are not an admin's. \<open>ensureCorrectUserOrAdmin\<close> does so exactly when
  no claims are attached, or the claims are not an admin's and their username is not the
  route's. In every other case the guard continues with \<open>next()\<close>.
\<close>

theorem guards_decide:
  "(ensureLoggedIn req res = NextErr (UnauthorizedError ''Unauthorized''))
      = (locals_user res = None)
   \<and> (ensureLoggedIn req res = Next) = (locals_user res \<noteq> None)
   \<and> (onlyAdmin req res = NextErr (UnauthorizedError ''Unauthorized''))
      = (locals_user res = None \<or> (\<exists>u. locals_user res = Some u \<and> \<not> cl_isAdmin u))
   \<and> (onlyAdmin req res = Next) = (\<exists>u. locals_user res = Some u \<and> cl_isAdmin u)
   \<and> (ensureCorrectUserOrAdmin req res = NextErr (UnauthorizedError ''Unauthorized''))
      = (locals_user res = None
         \<or> (\<exists>u. locals_user res = Some u \<and> \<not> cl_isAdmin u
                 \<and> params_username req \<noteq> Some (cl_username u)))
   \<and> (ensureCorrectUserOrAdmin req res = Next)
      = (\<exists>u. locals_user res = Some u
              \<and> (cl_isAdmin u \<or> params_username req = Some (cl_username u)))"
  by (auto simp: ensureLoggedIn_def onlyAdmin_def ensureCorrectUserOrAdmin_def Let_def
        split: option.splits)

theorem guards_decide_witness:
  "onlyAdmin ex_req_none ex_res_anonymous = NextErr (UnauthorizedError ''Unauthorized'')
   \<and> ensureLoggedIn ex_req_none ex_res_anonymous = NextErr (UnauthorizedError ''Unauthorized'')
   \<and> onlyAdmin ex_req_good \<lparr>locals_user = Some ex_claims_u1\<rparr>
       = NextErr (UnauthorizedError ''Unauthorized'')
   \<and> onlyAdmin ex_req_good \<lparr>locals_user = Some ex_claims_admin\<rparr> = Next
   \<and> ensureCorrectUserOrAdmin ex_req_good \<lparr>locals_user = Some ex_claims_u1\<rparr> = Next
   \<and> ensureCorrectUserOrAdmin ex_req_good \<lparr>locals_user = Some ex_claims_admin\<rparr> = Next
   \<and> ensureCorrectUserOrAdmin ex_req_good \<lparr>locals_user = Some ex_claims_u2\<rparr>
       = NextErr (UnauthorizedError ''Unauthorized'')"
  using guards_decide [of ex_req_none ex_res_anonymous]
    guards_decide [of ex_req_good "\<lparr>locals_user = Some ex_claims_u1\<rparr>"]
    guards_decide [of ex_req_good "\<lparr>locals_user = Some ex_claims_admin\<rparr>"]
    guards_decide [of ex_req_good "\<lparr>locals_user = Some ex_claims_u2\<rparr>"]
  by (simp add: ex_res_anonymous_def ex_req_good_def ex_claims_u1_def ex_claims_u2_def
        ex_claims_admin_def)

section \<open>Reading parameters\<close>

lemma digit_char_props:
  assumes "d < 10"
  shows "is_digit (digit_char d)" and "(of_char (digit_char d) :: nat) = 48 + d"
proof -
  from assms have "d \<in> {0, 1, 2, 3, 4, 5, 6, 7, 8, 9}" by auto
  then show "is_digit (digit_char d)" and "(of_char (digit_char d) :: nat) = 48 + d"
    by (auto simp: digit_char_def is_digit_def)
qed

lemma digits_value_snoc:
  "digits_value (ds @ [c]) = 10 * digits_value ds + (of_char c - 48)"
  by (simp add: digits_value_def)

lemma show_nat_digits:
  "show_nat n \<noteq> [] \<and> list_all is_digit (show_nat n) \<and> digits_value (show_nat n) = n"
proof (induction n rule: show_nat.induct)
  case (1 n)
  show ?case
  proof (cases "n < 10")
    case True
    then show ?thesis
      using digit_char_props [OF True]
      by (simp add: show_nat.simps [of n] digits_value_def)
  next
    case False
    have m: "n mod 10 < 10" by simp
    from False 1 have ih: "show_nat (n div 10) \<noteq> []" "list_all is_digit (show_nat (n div 10))"
      "digits_value (show_nat (n div 10)) = n div 10"
      by simp_all
    from False have eq: "show_nat n = show_nat (n div 10) @ [digit_char (n mod 10)]"
      by (simp add: show_nat.simps [of n])
    show ?thesis
      unfolding eq using ih digit_char_props [OF m] by (simp add: digits_value_snoc)
  qed
qed

lemma is_digit_plain:
  assumes "is_digit c"
  shows "\<not> pg_space c" and "c \<noteq> CHR ''-''" and "c \<noteq> CHR ''+''"
  using assms by (auto simp: is_digit_def pg_space_def)

lemma pg_trim_id:
  assumes "xs \<noteq> []" and "\<not> pg_space (hd xs)" and "\<not> pg_space (last xs)"
  shows "pg_trim xs = xs"
proof -
  from assms(1,2) have a: "dropWhile pg_space xs = xs" by (cases xs) simp_all
  from assms(1,3) have "\<not> pg_space (hd (rev xs))" by (simp add: hd_rev)
  with assms(1) have "dropWhile pg_space (rev xs) = rev xs" by (cases "rev xs") simp_all
  with a show ?thesis by (simp add: pg_trim_def)
qed

lemma parse_nat_show_nat: "parse_nat (show_nat n) = Some n"
  using show_nat_digits [of n] by (simp add: parse_nat_def)

lemma parse_int_show_int: "parse_int (show_int n) = Some n"
proof -
  obtain c r where cr: "show_nat (nat \<bar>n\<bar>) = c # r"
    using show_nat_digits [of "nat \<bar>n\<bar>"] by (cases "show_nat (nat \<bar>n\<bar>)") auto
  have digs: "list_all is_digit (c # r)"
    using show_nat_digits [of "nat \<bar>n\<bar>"] cr by simp
  then have c: "is_digit c" by simp
  from digs have "is_digit (last (c # r))"
    by (metis last_in_set list.distinct(1) list_all_iff)
  then have l: "\<not> pg_space (last (c # r))" by (rule is_digit_plain)
  have pn: "parse_nat (c # r) = Some (nat \<bar>n\<bar>)"
    using parse_nat_show_nat [of "nat \<bar>n\<bar>"] cr by simp
  show ?thesis
  proof (cases "n < 0")
    case True
    then have s: "show_int n = CHR ''-'' # c # r"
      using cr by (simp add: show_int_def abs_if)
    have "pg_trim (CHR ''-'' # c # r) = CHR ''-'' # c # r"
      using l by (intro pg_trim_id) (simp_all add: pg_space_def)
    then show ?thesis using pn True by (simp add: parse_int_def s)
  next
    case False
    then have s: "show_int n = c # r"
      using cr by (simp add: show_int_def abs_if)
    have "pg_trim (c # r) = c # r"
      using l is_digit_plain(1) [OF c] by (intro pg_trim_id) simp_all
    then show ?thesis using pn False is_digit_plain(2,3) [OF c] by (simp add: parse_int_def s)
  qed
qed

lemma in_range_Some: "in_range n = Some m \<Longrightarrow> n = m \<and> in_int4 m"
  by (simp add: in_range_def in_int4_def split: if_splits)

lemma int_param_coerce:
  assumes "int_param v = Some m"
  shows "v \<noteq> JUndefined" and "coerce TInt v = Inr (SInt m)"
proof -
  from assms show "v \<noteq> JUndefined" by (auto simp: int_param_def)
  from assms show "coerce TInt v = Inr (SInt m)"
    by (cases v)
       (auto simp: int_param_def parse_int_show_int dest: in_range_Some split: option.splits)
qed

section \<open>Job applications\<close>

lemma issue_tables [simp]:
  "jobs (issue q ps db) = jobs db" "users (issue q ps db) = users db"
  "applications (issue q ps db) = applications db" "companies (issue q ps db) = companies db"
  by (simp_all add: issue_def)

lemma exists_issue [simp]:
  "job_exists (issue q ps db) j = job_exists db j"
  "user_exists (issue q ps db) u = user_exists db u"
  "has_applied (issue q ps db) u j = has_applied db u j"
  by (simp_all add: job_exists_def user_exists_def has_applied_def)

lemma select_job_ids_length:
  assumes "coerce TInt jobId = Inr (SInt j)"
  shows "\<exists>rows. select_job_ids jobId db = Inr rows \<and> (length rows = 0) = (\<not> job_exists db j)"
  using assms by (auto simp: select_job_ids_def job_exists_def filter_empty_conv)

lemma select_usernames_length:
  assumes "text_ok u"
  shows "\<exists>rows. select_usernames (JStr u) db = Inr rows \<and> (length rows = 0) = (\<not> user_exists db u)"
  using assms by (auto simp: select_usernames_def user_exists_def filter_empty_conv)

lemma has_applied_iff:
  "has_applied db u j = (\<exists>a\<in>set (applications db). a_username a = u \<and> a_job_id a = j)"
proof
  assume "has_applied db u j"
  then show "\<exists>a\<in>set (applications db). a_username a = u \<and> a_job_id a = j"
    unfolding has_applied_def by force
next
  assume "\<exists>a\<in>set (applications db). a_username a = u \<and> a_job_id a = j"
  then obtain a where a: "a \<in> set (applications db)" "a_username a = u" "a_job_id a = j"
    by blast
  then have "a = \<lparr>a_username = u, a_job_id = j\<rparr>" by simp
  with a(1) show "has_applied db u j" by (simp add: has_applied_def)
qed

lemma select_application_length:
  assumes "text_ok u" and "coerce TInt jobId = Inr (SInt j)"
  shows "\<exists>rows. select_application (JStr u) jobId db = Inr rows
          \<and> (length rows \<noteq> 0) = has_applied db u j"
  using assms by (auto simp: select_application_def has_applied_iff filter_empty_conv)

lemma insert_application_fresh:
  assumes "text_ok u" and "coerce TInt jobId = Inr (SInt j)"
    and "job_exists db j" "user_exists db u" "\<not> has_applied db u j"
  shows "insert_application (JStr u) jobId db =
     Inr (db\<lparr>applications := applications db @ [\<lparr>a_username = u, a_job_id = j\<rparr>]\<rparr>,
          [(''username'', JStr u), (''jobId'', JNum j)])"
  using assms by (simp add: insert_application_def job_exists_def user_exists_def has_applied_def)

lemma apply_no_job:
  assumes "jobId \<noteq> JUndefined" and kj: "coerce TInt jobId = Inr (SInt j)"
    and "\<not> job_exists db j"
  shows "fst (JobApplication_apply (JStr u) jobId db) = Inl (NotFoundError ''Job cannot be found.'')
   \<and> applications (snd (JobApplication_apply (JStr u) jobId db)) = applications db"
proof -
  obtain rows where "select_job_ids jobId (issue ''SELECT id FROM jobs WHERE id = $1'' [jobId] db) = Inr rows"
    "length rows = 0"
    using select_job_ids_length [OF kj, of "issue ''SELECT id FROM jobs WHERE id = $1'' [jobId] db"] assms
    by auto
  then show ?thesis using assms(1) by (simp add: JobApplication_apply_def Let_def)
qed

lemma apply_no_user:
  assumes "jobId \<noteq> JUndefined" and kj: "coerce TInt jobId = Inr (SInt j)" and tu: "text_ok u"
    and "job_exists db j" "\<not> user_exists db u"
  shows "fst (JobApplication_apply (JStr u) jobId db) = Inl (NotFoundError ''Username cannot be found.'')
   \<and> applications (snd (JobApplication_apply (JStr u) jobId db)) = applications db"
proof -
  let ?db1 = "issue ''SELECT id FROM jobs WHERE id = $1'' [jobId] db"
  let ?db2 = "issue ''SELECT username FROM users WHERE username = $1'' [JStr u] ?db1"
  obtain rows1 where r1: "select_job_ids jobId ?db1 = Inr rows1" "length rows1 \<noteq> 0"
    using select_job_ids_length [OF kj, of ?db1] assms by auto
  obtain rows2 where r2: "select_usernames (JStr u) ?db2 = Inr rows2" "length rows2 = 0"
    using select_usernames_length [OF tu, of ?db2] assms by auto
  show ?thesis using r1 r2 assms(1) by (simp add: JobApplication_apply_def Let_def)
qed

lemma apply_duplicate:
  assumes "jobId \<noteq> JUndefined" and kj: "coerce TInt jobId = Inr (SInt j)" and tu: "text_ok u"
    and "job_exists db j" "user_exists db u" "has_applied db u j"
  shows "fst (JobApplication_apply (JStr u) jobId db) =
     Inl (BadRequestError ''Job Application has already been submitted for this job.'')
   \<and> applications (snd (JobApplication_apply (JStr u) jobId db)) = applications db"
proof -
  let ?db1 = "issue ''SELECT id FROM jobs WHERE id = $1'' [jobId] db"
  let ?db2 = "issue ''SELECT username FROM users WHERE username = $1'' [JStr u] ?db1"
  let ?db3 = "issue (''SELECT job_id FROM applications WHERE '' @ ''username = $1 AND job_id = $2'')
                [JStr u, jobId] ?db2"
  obtain rows1 where r1: "select_job_ids jobId ?db1 = Inr rows1" "length rows1 \<noteq> 0"
    using select_job_ids_length [OF kj, of ?db1] assms by auto
  obtain rows2 where r2: "select_usernames (JStr u) ?db2 = Inr rows2" "length rows2 \<noteq> 0"
    using select_usernames_length [OF tu, of ?db2] assms by auto
  obtain rows3 where r3: "select_application (JStr u) jobId ?db3 = Inr rows3" "length rows3 \<noteq> 0"
    using select_application_length [OF tu kj, of ?db3] assms by auto
  show ?thesis using r1 r2 r3 assms(1) by (simp add: JobApplication_apply_def Let_def)
qed

lemma apply_fresh:
  assumes "jobId \<noteq> JUndefined" and kj: "coerce TInt jobId = Inr (SInt j)" and tu: "text_ok u"
    and "job_exists db j" "user_exists db u" "\<not> has_applied db u j"
  shows "fst (JobApplication_apply (JStr u) jobId db) = Inr [(''applied'', JNum j)]
   \<and> applications (snd (JobApplication_apply (JStr u) jobId db)) =
       applications db @ [\<lparr>a_username = u, a_job_id = j\<rparr>]
   \<and> jobs (snd (JobApplication_apply (JStr u) jobId db)) = jobs db
   \<and> users (snd (JobApplication_apply (JStr u) jobId db)) = users db"
proof -
  let ?db1 = "issue ''SELECT id FROM jobs WHERE id = $1'' [jobId] db"
  let ?db2 = "issue ''SELECT username FROM users WHERE username = $1'' [JStr u] ?db1"
  let ?db3 = "issue (''SELECT job_id FROM applications WHERE '' @ ''username = $1 AND job_id = $2'')
                [JStr u, jobId] ?db2"
  let ?db4 = "issue (''INSERT INTO applications (username, job_id) ''
                       @ ''VALUES ($1, $2) RETURNING username, job_id as ''
                       @ [dquote] @ ''jobId'' @ [dquote]) [JStr u, jobId] ?db3"
  obtain rows1 where r1: "select_job_ids jobId ?db1 = Inr rows1" "length rows1 \<noteq> 0"
    using select_job_ids_length [OF kj, of ?db1] assms by auto
  obtain rows2 where r2: "select_usernames (JStr u) ?db2 = Inr rows2" "length rows2 \<noteq> 0"
    using select_usernames_length [OF tu, of ?db2] assms by auto
  obtain rows3 where r3: "select_application (JStr u) jobId ?db3 = Inr rows3" "length rows3 = 0"
    using select_application_length [OF tu kj, of ?db3] assms by auto
  have r4: "insert_application (JStr u) jobId ?db4 =
     Inr (?db4\<lparr>applications := applications ?db4 @ [\<lparr>a_username = u, a_job_id = j\<rparr>]\<rparr>,
          [(''username'', JStr u), (''jobId'', JNum j)])"
    by (rule insert_application_fresh [OF tu kj]) (simp_all add: assms)
  show ?thesis using r1 r2 r3 r4 assms(1) by (simp add: JobApplication_apply_def Let_def js_get_def)
qed

lemma apply_failure_keeps:
  assumes "fst (JobApplication_apply username jobId db) = Inl e"
  shows "applications (snd (JobApplication_apply username jobId db)) = applications db"
  using assms
  by (auto simp: JobApplication_apply_def Let_def split: sum.splits if_splits prod.splits)

text \<open>
  C8, as amended. \<open>JobApplication.apply\<close> for a username that is a string without the
  character of code 0 and a job id that is an integer in the range of the database's
  4-byte integers, given as a number or as a decimal string (the route passes the string
  of the URL). When the job or the user is not in the store it raises NotFound.
  When both are there and the pair is already an application it raises the BadRequest
  error for a duplicate. Otherwise it appends the pair to the applications and returns
  \<open>{applied: jobId}\<close> with the job id as a number, and applying again to the resulting
  store raises the duplicate error. Whenever it raises, for arguments of any kind, the
  applications are as they were.
\<close>

theorem apply_outcomes:
  "(text_ok u \<and> int_param jobId = Some j \<longrightarrow>
      (\<not> job_exists db j \<or> \<not> user_exists db u \<longrightarrow>
         (\<exists>m. fst (JobApplication_apply (JStr u) jobId db) = Inl (NotFoundError m)))
      \<and> (job_exists db j \<and> user_exists db u \<and> has_applied db u j \<longrightarrow>
         fst (JobApplication_apply (JStr u) jobId db) =
           Inl (BadRequestError ''Job Application has already been submitted for this job.''))
      \<and> (job_exists db j \<and> user_exists db u \<and> \<not> has_applied db u j \<longrightarrow>
         fst (JobApplication_apply (JStr u) jobId db) = Inr [(''applied'', JNum j)]
         \<and> applications (snd (JobApplication_apply (JStr u) jobId db)) =
             applications db @ [\<lparr>a_username = u, a_job_id = j\<rparr>]
         \<and> fst (JobApplication_apply (JStr u) jobId
                   (snd (JobApplication_apply (JStr u) jobId db))) =
             Inl (BadRequestError ''Job Application has already been submitted for this job.'')))
   \<and> (\<forall>username jobId e.
         fst (JobApplication_apply username jobId db) = Inl e \<longrightarrow>
         applications (snd (JobApplication_apply username jobId db)) = applications db)"
proof (intro conjI impI allI)
  fix username jobId' e
  assume "fst (JobApplication_apply username jobId' db) = Inl e"
  then show "applications (snd (JobApplication_apply username jobId' db)) = applications db"
    by (rule apply_failure_keeps)
next
  let ?r = "JobApplication_apply (JStr u) jobId db"
  assume h: "text_ok u \<and> int_param jobId = Some j"
  then have tu: "text_ok u" and i: "int_param jobId = Some j" by simp_all
  note ne = int_param_coerce(1) [OF i]
  note kj = int_param_coerce(2) [OF i]
  {
    assume "\<not> job_exists db j \<or> \<not> user_exists db u"
    then show "\<exists>m. fst ?r = Inl (NotFoundError m)"
      using apply_no_job [OF ne kj, of db u] apply_no_user [OF ne kj tu, of db] by blast
  next
    assume "job_exists db j \<and> user_exists db u \<and> has_applied db u j"
    then show "fst ?r = Inl (BadRequestError ''Job Application has already been submitted for this job.'')"
      using apply_duplicate [OF ne kj tu, of db] by blast
  next
    assume a: "job_exists db j \<and> user_exists db u \<and> \<not> has_applied db u j"
    then have f: "fst ?r = Inr [(''applied'', JNum j)]"
      "applications (snd ?r) = applications db @ [\<lparr>a_username = u, a_job_id = j\<rparr>]"
      "jobs (snd ?r) = jobs db" "users (snd ?r) = users db"
      using apply_fresh [OF ne kj tu, of db] by simp_all
    show "fst ?r = Inr [(''applied'', JNum j)]" by (rule f(1))
    show "applications (snd ?r) = applications db @ [\<lparr>a_username = u, a_job_id = j\<rparr>]"
      by (rule f(2))
    from a f have "job_exists (snd ?r) j" "user_exists (snd ?r) u" "has_applied (snd ?r) u j"
      by (simp_all add: job_exists_def user_exists_def has_applied_def)
    from apply_duplicate [OF ne kj tu this]
    show "fst (JobApplication_apply (JStr u) jobId (snd ?r)) =
            Inl (BadRequestError ''Job Application has already been submitted for this job.'')"
      by simp
  }
qed

theorem apply_outcomes_witness:
  "text_ok ''u1'' \<and> text_ok ''u2'' \<and> text_ok ''nope''
   \<and> int_param (JStr ''1'') = Some 1 \<and> int_param (JNum 0) = Some 0
   \<and> fst (JobApplication_apply (JStr ''u1'') (JNum 0) ex_db) = Inl (NotFoundError ''Job cannot be found.'')
   \<and> fst (JobApplication_apply (JStr ''nope'') (JStr ''1'') ex_db)
       = Inl (NotFoundError ''Username cannot be found.'')
   \<and> fst (JobApplication_apply (JStr ''u1'') (JStr ''1'') ex_db)
       = Inl (BadRequestError ''Job Application has already been submitted for this job.'')
   \<and> applications (snd (JobApplication_apply (JStr ''u1'') (JStr ''1'') ex_db)) = applications ex_db
   \<and> fst (JobApplication_apply (JStr ''u2'') (JStr ''1'') ex_db) = Inr [(''applied'', JNum 1)]
   \<and> applications (snd (JobApplication_apply (JStr ''u2'') (JStr ''1'') ex_db))
       = [\<lparr>a_username = ''u1'', a_job_id = 1\<rparr>, \<lparr>a_username = ''u2'', a_job_id = 1\<rparr>]"
proof -
  have t: "text_ok ''u1''" "text_ok ''u2''" "text_ok ''nope''"
    by (simp_all add: text_ok_def nul_def)
  have i: "int_param (JStr ''1'') = Some 1" "int_param (JNum 0) = Some 0"
    by code_simp+
  have facts:
    "\<not> job_exists ex_db 0" "job_exists ex_db 1"
    "user_exists ex_db ''u1''" "user_exists ex_db ''u2''" "\<not> user_exists ex_db ''nope''"
    "has_applied ex_db ''u1'' 1" "\<not> has_applied ex_db ''u2'' 1"
    "applications ex_db = [\<lparr>a_username = ''u1'', a_job_id = 1\<rparr>]"
    by (simp_all add: ex_db_def job_exists_def user_exists_def has_applied_def)
  have dup: "fst (JobApplication_apply (JStr ''u1'') (JStr ''1'') ex_db)
       = Inl (BadRequestError ''Job Application has already been submitted for this job.'')"
    using apply_outcomes [of "''u1''" "JStr ''1''" 1 ex_db] t i facts by blast
  have kept: "applications (snd (JobApplication_apply (JStr ''u1'') (JStr ''1'') ex_db))
       = applications ex_db"
    using apply_outcomes [of "''u1''" "JStr ''1''" 1 ex_db] dup by blast
  have ok: "fst (JobApplication_apply (JStr ''u2'') (JStr ''1'') ex_db) = Inr [(''applied'', JNum 1)]
      \<and> applications (snd (JobApplication_apply (JStr ''u2'') (JStr ''1'') ex_db)) =
          applications ex_db @ [\<lparr>a_username = ''u2'', a_job_id = 1\<rparr>]"
    using apply_outcomes [of "''u2''" "JStr ''1''" 1 ex_db] t i facts by blast
  have m1: "fst (JobApplication_apply (JStr ''u1'') (JNum 0) ex_db) = Inl (NotFoundError ''Job cannot be found.'')"
    using apply_no_job [OF int_param_coerce [OF i(2)] facts(1)] by simp
  have m2: "fst (JobApplication_apply (JStr ''nope'') (JStr ''1'') ex_db)
       = Inl (NotFoundError ''Username cannot be found.'')"
    using apply_no_user [OF int_param_coerce [OF i(1)] t(3) facts(2) facts(5)] by simp
  show ?thesis
    using t i dup kept ok facts(8) m1 m2 by simp
qed

text \<open>
  C8 as stated fails for a job id that is defined but is not an integer. Both arguments
  below are defined and no job has the id \<open>'abc'\<close>, so the claim has NotFound; the first
  query is rejected by the database instead, and \<open>apply\<close> raises the \<open>ExpressError\<close>
  with status 500 that wraps the rejection.
\<close>

theorem apply_malformed_id_counterexample:
  "JStr ''u1'' \<noteq> JUndefined \<and> JStr ''abc'' \<noteq> JUndefined
   \<and> map j_id (jobs ex_db) = [1, 2, 3]
   \<and> fst (JobApplication_apply (JStr ''u1'') (JStr ''abc'') ex_db)
       = Inl (ExpressErrorDb (DbError ''22P02'') (Some 500))
   \<and> snd (JobApplication_apply (JStr ''u1'') (JStr ''abc'') ex_db)
       = issue ''SELECT id FROM jobs WHERE id = $1'' [JStr ''abc''] ex_db"
  by code_simp

section \<open>Users\<close>

lemma js_keys_delete: "set (js_keys (js_delete obj k)) = set (js_keys obj) - {k}"
  by (auto simp: js_keys_def js_delete_def)

lemma js_keys_set: "set (js_keys (js_set obj k v)) = insert k (set (js_keys obj))"
  by (induction obj k v rule: js_set.induct) (auto simp: js_keys_def)

lemma lacks_password_row [simp]: "lacks_password (user_row u)"
  by (simp add: lacks_password_def user_row_def js_keys_def)

lemma lacks_password_delete [simp]: "lacks_password (js_delete obj ''password'')"
  by (simp add: lacks_password_def js_keys_delete)

lemma lacks_password_set:
  "k \<noteq> ''password'' \<Longrightarrow> lacks_password obj \<Longrightarrow> lacks_password (js_set obj k v)"
  by (simp add: lacks_password_def js_keys_set)

lemma authenticate_lacks_password:
  "fst (User_authenticate compare username password db) = Inr r \<Longrightarrow> lacks_password r"
  by (auto simp: User_authenticate_def Let_def
           split: list.splits jsval.splits if_splits sum.splits)

lemma register_lacks_password:
  "fst (User_register hash reg db) = Inr r \<Longrightarrow> lacks_password r"
  by (auto simp: User_register_def Let_def insert_user_def split: if_splits sum.splits)

lemma get_lacks_password:
  "fst (User_get username db) = Inr r \<Longrightarrow> lacks_password r"
  by (auto simp: User_get_def Let_def lacks_password_def js_keys_def
           split: list.splits sum.splits if_splits)

lemma findAll_lacks_password:
  "fst (User_findAll db) = Inr rs \<Longrightarrow> list_all lacks_password rs"
  by (auto simp: User_findAll_def Let_def list_all_iff)

lemma update_lacks_password:
  "fst (User_update hash username data db) = Inr r \<Longrightarrow> lacks_password r"
  by (auto simp: User_update_def Let_def lacks_password_set
           split: sum.splits list.splits if_splits prod.splits)

text \<open>
  C7. Whatever \<open>authenticate\<close>, \<open>register\<close>, \<open>get\<close>, \<open>findAll\<close> and \<open>update\<close> of the user
  model return, no returned user object has a \<open>password\<close> field; this includes the object
  an update returns, whether or not the update set a password.
\<close>

theorem password_never_returned:
  "(\<forall>r. fst (User_authenticate compare username password db) = Inr r \<longrightarrow> lacks_password r)
   \<and> (\<forall>r. fst (User_register hash reg db) = Inr r \<longrightarrow> lacks_password r)
   \<and> (\<forall>r. fst (User_get username db) = Inr r \<longrightarrow> lacks_password r)
   \<and> (\<forall>rs. fst (User_findAll db) = Inr rs \<longrightarrow> list_all lacks_password rs)
   \<and> (\<forall>r. fst (User_update hash username data db) = Inr r \<longrightarrow> lacks_password r)"
  using authenticate_lacks_password register_lacks_password get_lacks_password
    findAll_lacks_password update_lacks_password
  by blast

theorem password_never_returned_witness:
  "fst (User_authenticate ex_compare ''u1'' ''password1'' ex_db) =
     Inr [(''username'', JStr ''u1''), (''firstName'', JStr ''U1F''), (''lastName'', JStr ''U1L''),
          (''email'', JStr ''u1@email.com''), (''isAdmin'', JBool False)]
   \<and> lacks_password (projr (fst (User_authenticate ex_compare ''u1'' ''password1'' ex_db)))
   \<and> fst (User_register ex_hash ex_registration ex_db) =
     Inr [(''username'', JStr ''new''), (''firstName'', JStr ''Test''),
          (''lastName'', JStr ''Tester''), (''email'', JStr ''test@test.com''),
          (''isAdmin'', JBool False)]
   \<and> lacks_password (projr (fst (User_register ex_hash ex_registration ex_db)))
   \<and> fst (User_get ''u1'' ex_db) =
     Inr [(''username'', JStr ''u1''), (''firstName'', JStr ''U1F''), (''lastName'', JStr ''U1L''),
          (''email'', JStr ''u1@email.com''), (''isAdmin'', JBool False),
          (''jobs'', JArr [JNum 1])]
   \<and> lacks_password (projr (fst (User_get ''u1'' ex_db)))
   \<and> fst (User_findAll ex_db) =
     Inr [[(''username'', JStr ''u1''), (''firstName'', JStr ''U1F''), (''lastName'', JStr ''U1L''),
           (''email'', JStr ''u1@email.com''), (''isAdmin'', JBool False)],
          [(''username'', JStr ''u2''), (''firstName'', JStr ''U2F''), (''lastName'', JStr ''U2L''),
           (''email'', JStr ''u2@email.com''), (''isAdmin'', JBool False)]]
   \<and> list_all lacks_password (projr (fst (User_findAll ex_db)))
   \<and> fst (User_update ex_hash ''u1'' [(''password'', JStr ''new'')] ex_db) =
     Inr [(''username'', JStr ''u1''), (''firstName'', JStr ''U1F''), (''lastName'', JStr ''U1L''),
          (''email'', JStr ''u1@email.com''), (''isAdmin'', JBool False),
          (''jobs'', JArr [JNum 1])]
   \<and> lacks_password (projr (fst (User_update ex_hash ''u1'' [(''password'', JStr ''new'')] ex_db)))"
proof -
  have a: "fst (User_authenticate ex_compare ''u1'' ''password1'' ex_db) =
     Inr [(''username'', JStr ''u1''), (''firstName'', JStr ''U1F''), (''lastName'', JStr ''U1L''),
          (''email'', JStr ''u1@email.com''), (''isAdmin'', JBool False)]"
    by code_simp
  have r: "fst (User_register ex_hash ex_registration ex_db) =
     Inr [(''username'', JStr ''new''), (''firstName'', JStr ''Test''),
          (''lastName'', JStr ''Tester''), (''email'', JStr ''test@test.com''),
          (''isAdmin'', JBool False)]"
    by code_simp
  have g: "fst (User_get ''u1'' ex_db) =
     Inr [(''username'', JStr ''u1''), (''firstName'', JStr ''U1F''), (''lastName'', JStr ''U1L''),
          (''email'', JStr ''u1@email.com''), (''isAdmin'', JBool False),
          (''jobs'', JArr [JNum 1])]"
    by code_simp
  have f: "fst (User_findAll ex_db) =
     Inr [[(''username'', JStr ''u1''), (''firstName'', JStr ''U1F''), (''lastName'', JStr ''U1L''),
           (''email'', JStr ''u1@email.com''), (''isAdmin'', JBool False)],
          [(''username'', JStr ''u2''), (''firstName'', JStr ''U2F''), (''lastName'', JStr ''U2L''),
           (''email'', JStr ''u2@email.com''), (''isAdmin'', JBool False)]]"
    by code_simp
  have u: "fst (User_update ex_hash ''u1'' [(''password'', JStr ''new'')] ex_db) =
     Inr [(''username'', JStr ''u1''), (''firstName'', JStr ''U1F''), (''lastName'', JStr ''U1L''),
          (''email'', JStr ''u1@email.com''), (''isAdmin'', JBool False),
          (''jobs'', JArr [JNum 1])]"
    by code_simp
  note t = password_never_returned [of ex_compare "''u1''" "''password1''" ex_db ex_hash
      ex_registration "[(''password'', JStr ''new'')]"]
  have "lacks_password (projr (fst (User_authenticate ex_compare ''u1'' ''password1'' ex_db)))"
    using t a by (metis sum.sel(2))
  moreover have "lacks_password (projr (fst (User_register ex_hash ex_registration ex_db)))"
    using t r by (metis sum.sel(2))
  moreover have "lacks_password (projr (fst (User_get ''u1'' ex_db)))"
    using t g by (metis sum.sel(2))
  moreover have "list_all lacks_password (projr (fst (User_findAll ex_db)))"
    using t f by (metis sum.sel(2))
  moreover have "lacks_password
      (projr (fst (User_update ex_hash ''u1'' [(''password'', JStr ''new'')] ex_db)))"
    using t u by (metis sum.sel(2))
  ultimately show ?thesis using a r g f u by blast
qed

section \<open>Updating a user\<close>

lemma map_sum_all2: "map_sum f xs = Inr ys \<Longrightarrow> list_all2 (\<lambda>x y. f x = Inr y) xs ys"
  by (induction xs arbitrary: ys) (auto split: sum.splits)

lemma startsWith_dot: "startsWith s (k @ ''.'') \<Longrightarrow> CHR ''.'' \<in> set s"
proof -
  assume "startsWith s (k @ ''.'')"
  then have "take (length (k @ ''.'')) s = k @ ''.''" by (simp add: startsWith_def)
  then have "CHR ''.'' \<in> set (take (length (k @ ''.'')) s)" by simp
  then show ?thesis by (rule in_set_takeD)
qed

lemma user_map_no_dotted: "\<not> has_dotted_key user_jsToSql k"
  by (auto simp: has_dotted_key_def user_jsToSql_def dest: startsWith_dot)

lemma user_map_plain: "no_field_expands user_jsToSql obj"
  by (simp add: no_field_expands_def expands_def user_map_no_dotted)

lemma put_user_keeps_password:
  "put_user (c, v) r = Inr r1 \<Longrightarrow> c \<noteq> ''password'' \<Longrightarrow> u_password r1 = u_password r"
  by (auto split: if_splits sqlval.splits)

lemma put_user_sets_password:
  "put_user (''password'', SText h) r = Inr r1 \<Longrightarrow> u_password r1 = h"
  by auto

lemma fold_put_keeps_password:
  "fold_sum put_user ts r = Inr r' \<Longrightarrow> ''password'' \<notin> set (map fst ts) \<Longrightarrow>
   u_password r' = u_password r"
proof (induction ts arbitrary: r)
  case Nil
  then show ?case by simp
next
  case (Cons a ts)
  obtain c v where a: "a = (c, v)" by (cases a)
  from Cons.prems(1) obtain r1 where r1: "put_user (c, v) r = Inr r1" "fold_sum put_user ts r1 = Inr r'"
    by (auto simp: a split: sum.splits)
  from Cons.prems(2) have "c \<noteq> ''password''" "''password'' \<notin> set (map fst ts)" by (auto simp: a)
  with Cons.IH [OF r1(2)] put_user_keeps_password [OF r1(1)] show ?case by simp
qed

lemma fold_put_sets_password:
  "fold_sum put_user ts r = Inr r' \<Longrightarrow> distinct (map fst ts) \<Longrightarrow>
   (''password'', SText h) \<in> set ts \<Longrightarrow> u_password r' = h"
proof (induction ts arbitrary: r)
  case Nil
  then show ?case by simp
next
  case (Cons a ts)
  obtain c v where a: "a = (c, v)" by (cases a)
  from Cons.prems(1) obtain r1 where r1: "put_user (c, v) r = Inr r1" "fold_sum put_user ts r1 = Inr r'"
    by (auto simp: a split: sum.splits)
  show ?case
  proof (cases "a = (''password'', SText h)")
    case True
    with a r1(1) have "u_password r1 = h" by (auto dest: put_user_sets_password)
    moreover from Cons.prems(2) True have "''password'' \<notin> set (map fst ts)" by auto
    ultimately show ?thesis using fold_put_keeps_password [OF r1(2)] by simp
  next
    case False
    with Cons.prems(3) have "(''password'', SText h) \<in> set ts" by simp
    moreover from Cons.prems(2) have "distinct (map fst ts)" by simp
    ultimately show ?thesis using Cons.IH [OF r1(2)] by simp
  qed
qed

lemma js_get_set_same: "js_get (js_set obj k v) k = v"
  by (induction obj k v rule: js_set.induct) (auto simp: js_get_def)

lemma js_get_delete_other: "k \<noteq> k' \<Longrightarrow> js_get (js_delete obj k') k = js_get obj k"
  by (induction obj) (auto simp: js_get_def js_delete_def)

lemma js_get_set_other: "k \<noteq> k' \<Longrightarrow> js_get (js_set obj k' v) k = js_get obj k"
  by (induction obj k' v rule: js_set.induct) (auto simp: js_get_def)

lemma js_delete_set: "js_delete (js_set obj k v) k = js_delete obj k"
  by (induction obj k v rule: js_set.induct) (auto simp: js_delete_def)

lemma numbered_nth: "i < length cs \<Longrightarrow> numbered cs ! i = (cs ! i, Suc i)"
  by (simp add: numbered_def number_from_def nth_enumerate_eq)

lemma numbered_length [simp]: "length (numbered cs) = length cs"
  by (simp add: numbered_def number_from_def)

lemma run_update_success:
  assumes "run_update schema put kt kof sets ps k rows = Inr (rows', changed)"
  obtains tsets kv key where
    "distinct (map fst sets)"
    "list_all2 (\<lambda>a t. typed_assign schema ps a = Inr t) sets tsets"
    "param ps k = Inr kv"
    "coerce kt kv = Inr key"
    "list_all2 (\<lambda>r r'. (if key \<noteq> SNull \<and> kof r = key then fold_sum put tsets r else Inr r) = Inr r')
       rows rows'"
    "changed = filter (\<lambda>p. key \<noteq> SNull \<and> kof (fst p) = key) (zip rows rows')"
proof -
  from assms obtain tsets kv key where
    d: "distinct (map fst sets)" and
    ts: "map_sum (typed_assign schema ps) sets = Inr tsets" and
    kv: "param ps k = Inr kv" and key: "coerce kt kv = Inr key" and
    rs: "map_sum (\<lambda>r. if key \<noteq> SNull \<and> kof r = key then fold_sum put tsets r else Inr r) rows
           = Inr rows'" and
    ch: "changed = filter (\<lambda>p. key \<noteq> SNull \<and> kof (fst p) = key) (zip rows rows')"
    by (auto simp: run_update_def Let_def split: if_splits sum.splits)
  show thesis
    by (rule that [OF d map_sum_all2 [OF ts] kv key map_sum_all2 [OF rs] ch])
qed

lemma typed_assign_fst: "typed_assign schema ps a = Inr t \<Longrightarrow> fst t = fst a"
  by (auto simp: typed_assign_def split: option.splits sum.splits)

lemma typed_all2_fst:
  "list_all2 (\<lambda>a t. typed_assign schema ps a = Inr t) sets tsets \<Longrightarrow> map fst tsets = map fst sets"
  by (induction rule: list_all2_induct) (auto dest: typed_assign_fst)

lemma update_users_success:
  assumes "update_users sets ps k db = Inr (db2, rows)"
  obtains tsets kv key changed where
    "distinct (map fst sets)"
    "list_all2 (\<lambda>a t. typed_assign user_schema ps a = Inr t) sets tsets"
    "param ps k = Inr kv"
    "coerce TText kv = Inr key"
    "list_all2 (\<lambda>r r'. (if key \<noteq> SNull \<and> SText (u_username r) = key
                         then fold_sum put_user tsets r else Inr r) = Inr r')
       (users db) (users db2)"
    "changed = filter (\<lambda>p. key \<noteq> SNull \<and> SText (u_username (fst p)) = key)
                 (zip (users db) (users db2))"
    "rows = map (\<lambda>p. user_row (snd p)) changed"
    "applications db2 = applications db"
proof -
  from assms obtain rows' changed where
    ru: "run_update user_schema put_user TText (\<lambda>u. SText (u_username u)) sets ps k (users db)
           = Inr (rows', changed)" and
    db2: "db2 = db\<lparr>users := rows'\<rparr>" and rows: "rows = map (\<lambda>p. user_row (snd p)) changed"
    by (auto simp: update_users_def split: sum.splits if_splits)
  from ru obtain tsets kv key where
    t: "distinct (map fst sets)"
       "list_all2 (\<lambda>a t. typed_assign user_schema ps a = Inr t) sets tsets"
       "param ps k = Inr kv"
       "coerce TText kv = Inr key"
       "list_all2 (\<lambda>r r'. (if key \<noteq> SNull \<and> SText (u_username r) = key
                           then fold_sum put_user tsets r else Inr r) = Inr r')
          (users db) rows'"
       "changed = filter (\<lambda>p. key \<noteq> SNull \<and> SText (u_username (fst p)) = key)
                    (zip (users db) rows')"
    by (rule run_update_success)
  show thesis
    by (rule that [of tsets kv key changed]) (simp_all add: t db2 rows)
qed

lemma User_update_success:
  assumes "User_update hash username data db = (Inr r, db')"
  shows "\<exists>data1 pu db1 db2 user0 rest.
           hash_password hash data = Inr data1
         \<and> sqlForPartialUpdate data1 user_jsToSql = Inr pu
         \<and> update_users (assigns pu) (valuesArr pu @ [JStr username]) (length (valuesArr pu) + 1)
              db1 = Inr (db2, user0 # rest)
         \<and> applications db1 = applications db \<and> users db1 = users db
         \<and> users db' = users db2 \<and> applications db' = applications db2
         \<and> r = (let user = js_delete user0 ''password'';
                     apps = filter (\<lambda>a. JStr (a_username a) = js_get user ''username'')
                              (applications db2)
                 in if apps \<noteq> [] then js_set user ''jobs'' (JArr (map (\<lambda>a. JNum (a_job_id a)) apps))
                    else user)"
proof -
  obtain data1 where hp: "hash_password hash data = Inr data1"
    using assms by (cases "hash_password hash data") (simp_all add: User_update_def)
  obtain pu where sq: "sqlForPartialUpdate data1 user_jsToSql = Inr pu"
    using assms hp
    by (cases "sqlForPartialUpdate data1 user_jsToSql") (simp_all add: User_update_def user_jsToSql_def)
  define db1 where "db1 = issue (''UPDATE users SET '' @ setCols pu @ '' WHERE username = ''
                        @ (''$'' @ show_nat (length (valuesArr pu) + 1)) @ '' RETURNING '' @ user_returning)
                 (valuesArr pu @ [JStr username]) db"
  have step: "User_update hash username data db =
      (case update_users (assigns pu) (valuesArr pu @ [JStr username]) (length (valuesArr pu) + 1) db1 of
         Inl e \<Rightarrow> (Inl (ExpressErrorDb e (Some 500)), db1)
       | Inr (db2, rows) \<Rightarrow>
           (case rows of
              [] \<Rightarrow> (Inl (NotFoundError (''No user: '' @ username)), db2)
            | user0 # _ \<Rightarrow>
                (let user = js_delete user0 ''password'';
                     db3 = issue (''SELECT job_id AS '' @ [dquote] @ ''jobId'' @ [dquote]
                                    @ '' FROM applications WHERE username = $1'')
                             [js_get user ''username''] db2;
                     userJobs = map (\<lambda>a. [(''jobId'', JNum (a_job_id a))])
                                  (filter (\<lambda>a. JStr (a_username a) = js_get user ''username'')
                                     (applications db3))
                 in (Inr (if length userJobs \<noteq> 0
                          then js_set user ''jobs'' (JArr (map (\<lambda>row. js_get row ''jobId'') userJobs))
                          else user), db3))))"
    using hp sq unfolding User_update_def db1_def user_jsToSql_def Let_def by simp
  obtain db2 rows where up:
    "update_users (assigns pu) (valuesArr pu @ [JStr username]) (length (valuesArr pu) + 1) db1
       = Inr (db2, rows)"
    using assms unfolding step
    by (cases "update_users (assigns pu) (valuesArr pu @ [JStr username]) (length (valuesArr pu) + 1) db1")
       auto
  obtain user0 rest where rows: "rows = user0 # rest"
    using assms unfolding step up by (cases rows) auto
  have jid: "js_get [(''jobId'', v)] ''jobId'' = v" for v
    by (simp add: js_get_def)
  from assms have
    "users db' = users db2" "applications db' = applications db2"
    "r = (let user = js_delete user0 ''password'';
              apps = filter (\<lambda>a. JStr (a_username a) = js_get user ''username'') (applications db2)
          in if apps \<noteq> [] then js_set user ''jobs'' (JArr (map (\<lambda>a. JNum (a_job_id a)) apps))
             else user)"
    unfolding step up rows by (auto simp: Let_def comp_def jid)
  moreover have "applications db1 = applications db" "users db1 = users db" by (simp_all add: db1_def)
  ultimately show ?thesis using hp sq up rows by blast
qed

lemma update_stores_hash:
  assumes hp: "hash_password hash data = Inr data1"
    and pw: "js_get data ''password'' = JStr p" "p \<noteq> []"
    and sq: "sqlForPartialUpdate data1 user_jsToSql = Inr pu"
    and all2: "list_all2 (\<lambda>a t. typed_assign user_schema (valuesArr pu @ [JStr username]) a = Inr t)
                 (assigns pu) tsets"
  shows "(''password'', SText (hash p)) \<in> set tsets"
proof -
  from hp pw have data1: "data1 = js_set data ''password'' (JStr (hash p))"
    by (simp add: hash_password_def)
  have keys: "''password'' \<in> set (js_keys data1)"
    by (simp add: data1 js_keys_set)
  then have ne: "js_keys data1 \<noteq> []" by auto
  have val: "js_get data1 ''password'' = JStr (hash p)"
    by (simp add: data1 js_get_set_same)
  let ?kept = "kept_keys data1"
  from sqlForPartialUpdate_plain [OF ne user_map_plain] sq have
    vals: "valuesArr pu = map (js_get data1) ?kept" and
    sets: "assigns pu = numbered (map (sqlKey_of user_jsToSql) ?kept)"
    by simp_all
  from keys val have "''password'' \<in> set ?kept" by (simp add: kept_keys_def)
  then obtain i where i: "i < length ?kept" "?kept ! i = ''password''"
    by (auto simp: in_set_conv_nth)
  have col: "sqlKey_of user_jsToSql ''password'' = ''password''"
    by code_simp
  from i have si: "assigns pu ! i = (''password'', Suc i)"
    by (simp add: sets numbered_nth col)
  from i have pi: "param (valuesArr pu @ [JStr username]) (Suc i) = Inr (JStr (hash p))"
    by (simp add: param_def vals nth_append val)
  have ta: "typed_assign user_schema (valuesArr pu @ [JStr username]) (assigns pu ! i)
              = Inr (''password'', SText (hash p))
            \<or> typed_assign user_schema (valuesArr pu @ [JStr username]) (assigns pu ! i)
              = Inl (DbError ''22021'')"
    by (simp add: si typed_assign_def user_schema_def pi)
  from i have li: "i < length (assigns pu)" by (simp add: sets)
  with all2 have ti: "typed_assign user_schema (valuesArr pu @ [JStr username]) (assigns pu ! i)
                    = Inr (tsets ! i)" and lt: "i < length tsets"
    by (auto simp: list_all2_conv_all_nth)
  from ti ta have "tsets ! i = (''password'', SText (hash p))" by auto
  with nth_mem [OF lt] show ?thesis by simp
qed

lemma user_row_fields:
  "js_delete (user_row c) ''password'' = user_row c"
  "js_delete (user_row c) ''jobs'' = user_row c"
  "js_get (user_row c) ''username'' = JStr (u_username c)"
  "''jobs'' \<notin> set (js_keys (user_row c))"
  by (simp_all add: js_get_def js_delete_def user_row_def js_keys_def)

text \<open>
  C6, as amended. For every user and every update object whose keys hold no double quote,
  the record that \<open>User.update\<close> returns is the row, after the update, of the stored user
  that was named by the \<open>username\<close> argument: it has that row's fields and no
  \<open>password\<close> field. No row of another user and no application is changed. If the update
  object supplied a password that is a non-empty string, the stored password of that row is
  the hash of the supplied one. The record additionally carries the list of the user's
  applied job ids when the user has at least one application, and has no \<open>jobs\<close> field
  when the user has none.
\<close>

theorem User_update_result:
  assumes "quote_free data"
    and "User_update hash username data db = (Inr r, db')"
  shows "lacks_password r
   \<and> applications db' = applications db
   \<and> list_all2 (\<lambda>u u'. u_username u \<noteq> username \<longrightarrow> u' = u) (users db) (users db')
   \<and> (\<exists>u0 u1. (u0, u1) \<in> set (zip (users db) (users db')) \<and> u_username u0 = username
        \<and> js_delete r ''jobs'' = user_row u1
        \<and> (\<forall>p. js_get data ''password'' = JStr p \<and> p \<noteq> [] \<longrightarrow> u_password u1 = hash p)
        \<and> (applied_ids db' (u_username u1) \<noteq> [] \<longrightarrow>
             js_get r ''jobs'' = JArr (applied_ids db' (u_username u1)))
        \<and> (applied_ids db' (u_username u1) = [] \<longrightarrow> ''jobs'' \<notin> set (js_keys r)))"
proof -
  from User_update_success [OF assms(2)] obtain data1 pu db1 db2 user0 rest where
    hp: "hash_password hash data = Inr data1" and
    sq: "sqlForPartialUpdate data1 user_jsToSql = Inr pu" and
    up: "update_users (assigns pu) (valuesArr pu @ [JStr username]) (length (valuesArr pu) + 1) db1
           = Inr (db2, user0 # rest)" and
    tabs1: "applications db1 = applications db" "users db1 = users db" and
    tabs: "users db' = users db2" "applications db' = applications db2" and
    r: "r = (let user = js_delete user0 ''password'';
                 apps = filter (\<lambda>a. JStr (a_username a) = js_get user ''username'')
                          (applications db2)
             in if apps \<noteq> [] then js_set user ''jobs'' (JArr (map (\<lambda>a. JNum (a_job_id a)) apps))
                else user)"
    by blast
  from up obtain tsets kv key changed where
    d: "distinct (map fst (assigns pu))" and
    all2: "list_all2 (\<lambda>a t. typed_assign user_schema (valuesArr pu @ [JStr username]) a = Inr t)
             (assigns pu) tsets" and
    kv: "param (valuesArr pu @ [JStr username]) (length (valuesArr pu) + 1) = Inr kv" and
    key: "coerce TText kv = Inr key" and
    rel: "list_all2 (\<lambda>r r'. (if key \<noteq> SNull \<and> SText (u_username r) = key
                              then fold_sum put_user tsets r else Inr r) = Inr r')
            (users db1) (users db2)" and
    ch: "changed = filter (\<lambda>p. key \<noteq> SNull \<and> SText (u_username (fst p)) = key)
                     (zip (users db1) (users db2))" and
    rows: "user0 # rest = map (\<lambda>p. user_row (snd p)) changed" and
    apps: "applications db2 = applications db1"
    by (rule update_users_success)
  from kv have "kv = JStr username" by (simp add: param_def)
  with key have key': "key = SText username" by (simp split: if_splits)
  have rel': "list_all2 (\<lambda>r r'. (if u_username r = username
                              then fold_sum put_user tsets r else Inr r) = Inr r')
            (users db) (users db')"
    using rel by (simp add: key' tabs tabs1)
  have ch': "changed = filter (\<lambda>p. u_username (fst p) = username) (zip (users db) (users db'))"
    using ch by (simp add: key' tabs tabs1)
  from rows obtain u0 u1 crest where c0: "changed = (u0, u1) # crest" "user0 = user_row u1"
    by (cases changed) auto
  have "(u0, u1) \<in> set changed" by (simp add: c0)
  then have mem: "(u0, u1) \<in> set (zip (users db) (users db'))" and u0: "u_username u0 = username"
    by (simp_all add: ch')
  from rel' mem u0 have fold: "fold_sum put_user tsets u0 = Inr u1"
    by (auto simp: list_all2_iff)
  let ?name = "u_username u1"
  have fil: "filter (\<lambda>a. JStr (a_username a) = js_get (js_delete user0 ''password'') ''username'')
               (applications db2)
             = filter (\<lambda>a. a_username a = ?name) (applications db')"
    by (simp add: tabs c0 user_row_fields)
  have r': "r = (if applied_ids db' ?name \<noteq> []
                 then js_set (user_row u1) ''jobs'' (JArr (applied_ids db' ?name))
                 else user_row u1)"
    unfolding r Let_def fil by (simp add: applied_ids_def c0 user_row_fields)
  have row: "js_delete r ''jobs'' = user_row u1"
    by (simp add: r' js_delete_set user_row_fields)
  have jobs1: "applied_ids db' ?name \<noteq> [] \<longrightarrow> js_get r ''jobs'' = JArr (applied_ids db' ?name)"
    by (simp add: r' js_get_set_same)
  have jobs2: "applied_ids db' ?name = [] \<longrightarrow> ''jobs'' \<notin> set (js_keys r)"
    by (simp add: r' user_row_fields)
  have pw: "u_password u1 = hash p"
    if p: "js_get data ''password'' = JStr p" "p \<noteq> []" for p
  proof -
    from update_stores_hash [OF hp p sq all2] have mem: "(''password'', SText (hash p)) \<in> set tsets" .
    from typed_all2_fst [OF all2] d have dt: "distinct (map fst tsets)" by simp
    from fold_put_sets_password [OF fold dt mem] show ?thesis .
  qed
  have lp: "lacks_password r"
    by (simp add: r' lacks_password_def js_keys_set) (simp add: user_row_def js_keys_def)
  have others: "list_all2 (\<lambda>u u'. u_username u \<noteq> username \<longrightarrow> u' = u) (users db) (users db')"
    using rel' by (rule list_all2_mono) (auto split: if_splits)
  have ap: "applications db' = applications db"
    by (simp add: tabs apps tabs1)
  show ?thesis using lp ap others mem u0 row pw jobs1 jobs2 by blast
qed

theorem User_update_result_witness:
  "quote_free [(''password'', JStr ''new'')]
   \<and> fst (User_update ex_hash ''u1'' [(''password'', JStr ''new'')] ex_db) =
     Inr [(''username'', JStr ''u1''), (''firstName'', JStr ''U1F''), (''lastName'', JStr ''U1L''),
          (''email'', JStr ''u1@email.com''), (''isAdmin'', JBool False),
          (''jobs'', JArr [JNum 1])]
   \<and> lacks_password (projr (fst (User_update ex_hash ''u1'' [(''password'', JStr ''new'')] ex_db)))
   \<and> map u_username (users (snd (User_update ex_hash ''u1'' [(''password'', JStr ''new'')] ex_db)))
       = [''u1'', ''u2'']
   \<and> map u_password (users (snd (User_update ex_hash ''u1'' [(''password'', JStr ''new'')] ex_db)))
       = [ex_hash ''new'', ex_hash ''password2'']
   \<and> applications (snd (User_update ex_hash ''u1'' [(''password'', JStr ''new'')] ex_db))
       = applications ex_db"
proof -
  let ?U = "User_update ex_hash ''u1'' [(''password'', JStr ''new'')] ex_db"
  have u: "fst ?U =
     Inr [(''username'', JStr ''u1''), (''firstName'', JStr ''U1F''), (''lastName'', JStr ''U1L''),
          (''email'', JStr ''u1@email.com''), (''isAdmin'', JBool False),
          (''jobs'', JArr [JNum 1])]"
    by code_simp
  have s: "map u_username (users (snd ?U)) = [''u1'', ''u2'']"
    "map u_password (users (snd ?U)) = [ex_hash ''new'', ex_hash ''password2'']"
    by code_simp+
  have q: "quote_free [(''password'', JStr ''new'')]"
    by (simp add: quote_free_def js_keys_def dquote_def)
  have prem: "?U = (Inr (projr (fst ?U)), snd ?U)"
    using u by (simp add: prod_eq_iff)
  from User_update_result [OF q prem] have "lacks_password (projr (fst ?U))"
    and "applications (snd ?U) = applications ex_db"
    by simp_all
  with q u s show ?thesis by simp
qed

text \<open>
  C6 as stated fails for a user without applications: \<open>u2\<close> is a user of the example
  store, the update object is not empty, the update succeeds, and the returned record has
  no \<open>jobs\<close> field.
\<close>

theorem User_update_no_jobs_counterexample:
  "user_exists ex_db ''u2''
   \<and> fst (User_update ex_hash ''u2'' [(''firstName'', JStr ''NewF'')] ex_db) =
     Inr [(''username'', JStr ''u2''), (''firstName'', JStr ''NewF''), (''lastName'', JStr ''U2L''),
          (''email'', JStr ''u2@email.com''), (''isAdmin'', JBool False)]
   \<and> ''jobs'' \<notin> set (js_keys (projr (fst (User_update ex_hash ''u2''
                                              [(''firstName'', JStr ''NewF'')] ex_db))))"
  by code_simp

section \<open>Filtering companies and jobs\<close>

lemma like_literal:
  "no_meta q \<Longrightarrow> like_match (q @ r) s = (\<exists>t. s = q @ t \<and> like_match r t)"
proof (induction q arbitrary: s)
  case Nil
  then show ?case by simp
next
  case (Cons c q)
  then have c: "c \<noteq> percent" "c \<noteq> underscore" "c \<noteq> backslash" and q: "no_meta q"
    by (auto simp: no_meta_def)
  show ?case
  proof (cases s)
    case Nil
    then show ?thesis using c by simp
  next
    case (Cons x t)
    then show ?thesis using c Cons.IH [OF q, of t] by auto
  qed
qed

lemma like_percent:
  "like_match (percent # r) s = (\<exists>u t. s = u @ t \<and> like_match r t)"
proof (induction s)
  case Nil
  then show ?case by simp
next
  case (Cons x s)
  have "like_match (percent # r) (x # s) = (like_match r (x # s) \<or> like_match (percent # r) s)"
    by simp
  also have "\<dots> = (like_match r (x # s) \<or> (\<exists>u t. s = u @ t \<and> like_match r t))"
    using Cons.IH by simp
  also have "\<dots> = (\<exists>u t. x # s = u @ t \<and> like_match r t)"
    by (auto simp: Cons_eq_append_conv)
  finally show ?case .
qed

lemma like_contains:
  assumes "no_meta q"
  shows "like_match ([percent] @ q @ [percent]) s = sublist q s"
proof -
  have "like_match ([percent] @ q @ [percent]) s
          = (\<exists>u t. s = u @ t \<and> like_match (q @ [percent]) t)"
    using like_percent [of "q @ [percent]" s] by simp
  also have "\<dots> = (\<exists>u t. s = u @ t \<and> (\<exists>v. t = q @ v \<and> like_match [percent] v))"
    using like_literal [OF assms, of "[percent]"] by simp
  also have "\<dots> = (\<exists>u v. s = u @ q @ v)"
    using like_percent [of "[]"] by auto
  finally show ?thesis by (simp add: sublist_def)
qed

lemma of_char_lower:
  "(of_char (lower_char c) :: nat) =
     (if 65 \<le> (of_char c :: nat) \<and> (of_char c :: nat) \<le> 90 then of_char c + 32 else of_char c)"
  by (simp add: lower_char_def Let_def)

lemma lower_char_meta:
  "lower_char c = percent \<longleftrightarrow> c = percent"
  "lower_char c = underscore \<longleftrightarrow> c = underscore"
  "lower_char c = backslash \<longleftrightarrow> c = backslash"
proof -
  have inj: "a = b \<longleftrightarrow> (of_char a :: nat) = of_char b" for a b :: char
    by auto
  show "lower_char c = percent \<longleftrightarrow> c = percent"
    unfolding inj [of "lower_char c"] inj [of c] of_char_lower by (simp add: percent_def)
  show "lower_char c = underscore \<longleftrightarrow> c = underscore"
    unfolding inj [of "lower_char c"] inj [of c] of_char_lower by (simp add: underscore_def)
  show "lower_char c = backslash \<longleftrightarrow> c = backslash"
    unfolding inj [of "lower_char c"] inj [of c] of_char_lower by (simp add: backslash_def)
qed

lemma no_meta_lower: "no_meta p \<Longrightarrow> no_meta (sql_lower p)"
  by (auto simp: no_meta_def sql_lower_def lower_char_meta
        eq_commute [of percent] eq_commute [of underscore] eq_commute [of backslash])

lemma lower_like_contains: "no_meta p \<Longrightarrow> lower_like s p = contains_ci s p"
  using like_contains [OF no_meta_lower] by (simp add: lower_like_def contains_ci_def)

lemma int_param_cases:
  assumes "int_or_absent v"
  shows "v = JUndefined \<and> int_param v = None
         \<or> (\<exists>m. v \<noteq> JUndefined \<and> int_param v = Some m \<and> coerce TInt v = Inr (SInt m))"
proof (cases "v = JUndefined")
  case True
  then show ?thesis by (simp add: int_param_def)
next
  case False
  with assms obtain m where "int_param v = Some m" by (auto simp: int_or_absent_def)
  with False int_param_coerce(2) [OF this] show ?thesis by simp
qed

lemma like_plain_cases:
  assumes "like_plain v"
  shows "v = JUndefined \<or> (\<exists>p. v = JStr p \<and> no_meta p \<and> coerce TText v = Inr (SText p))"
  using assms by (cases v) (auto simp: like_plain_def)

lemma select_companies_issue [simp]: "select_companies conds ps (issue q ps' db) = select_companies conds ps db"
  by (simp add: select_companies_def split: sum.splits)

lemma Company_findAll_rows:
  assumes "company_filters_typed f"
  shows "fst (Company_findAll f db) =
    Inr (map company_row (sort_key c_name (filter (company_satisfies f) (companies db))))"
proof -
  from assms have
    a: "int_or_absent (js_get f ''minEmployees'')" and
    b: "int_or_absent (js_get f ''maxEmployees'')" and
    c: "like_plain (js_get f ''nameLike'')"
    by (simp_all add: company_filters_typed_def)
  show ?thesis
    using int_param_cases [OF a] int_param_cases [OF b] like_plain_cases [OF c]
    by (elim disjE exE conjE)
       (simp_all add: Company_findAll_def Let_def select_companies_def typed_cond_def param_def
          company_satisfies_def [abs_def] at_least_def at_most_def text_contains_def
          lower_like_contains)
qed

text \<open>
  C3, as amended. For every stored list of companies and every filter object in which
  \<open>minEmployees\<close> and \<open>maxEmployees\<close>, when supplied, are integers in the range of the
  database's 4-byte integers (numbers, or decimal strings) and
  \<open>nameLike\<close>, when supplied, is a string without the character of code 0 and without
  the characters \<open>%\<close>, \<open>_\<close> and backslash, \<open>Company.findAll\<close> returns the rows of
  exactly the companies that satisfy every supplied predicate (employees at least the
  minimum, at most the maximum, name containing \<open>nameLike\<close> when the case of ASCII letters
  is ignored), each as often as it is stored, in ascending order of name; with no filter
  supplied these are all stored companies.
\<close>

theorem Company_findAll_filters:
  assumes "company_filters_typed f"
  shows "\<exists>found. fst (Company_findAll f db) = Inr (map company_row found)
           \<and> sorted (map c_name found)
           \<and> mset found = filter_mset (company_satisfies f) (mset (companies db))
           \<and> (js_get f ''minEmployees'' = JUndefined \<and> js_get f ''maxEmployees'' = JUndefined
                \<and> js_get f ''nameLike'' = JUndefined \<longrightarrow> mset found = mset (companies db))"
proof -
  let ?found = "sort_key c_name (filter (company_satisfies f) (companies db))"
  have "fst (Company_findAll f db) = Inr (map company_row ?found)"
    by (rule Company_findAll_rows [OF assms])
  moreover have "sorted (map c_name ?found)"
    by (rule sorted_sort_key)
  moreover have "mset ?found = filter_mset (company_satisfies f) (mset (companies db))"
    by simp
  moreover have "mset ?found = mset (companies db)"
    if "js_get f ''minEmployees'' = JUndefined \<and> js_get f ''maxEmployees'' = JUndefined
        \<and> js_get f ''nameLike'' = JUndefined"
    using that
    by (simp add: company_satisfies_def [abs_def] at_least_def at_most_def text_contains_def
          int_param_def)
  ultimately show ?thesis by blast
qed

theorem Company_findAll_filters_witness:
  "company_filters_typed ex_company_filters
   \<and> fst (Company_findAll ex_company_filters ex_db) =
       Inr (map company_row
              [\<lparr>c_handle = ''c2'', c_name = ''C2'', c_description = ''Desc2'',
                c_num_employees = Some 2, c_logo_url = Some ''http://c2.img''\<rparr>,
               \<lparr>c_handle = ''c3'', c_name = ''C3'', c_description = ''Desc3'',
                c_num_employees = Some 3, c_logo_url = Some ''http://c3.img''\<rparr>])
   \<and> (\<exists>found. fst (Company_findAll ex_company_filters ex_db) = Inr (map company_row found)
          \<and> sorted (map c_name found))"
proof -
  have h: "company_filters_typed ex_company_filters"
    by code_simp
  have ev: "fst (Company_findAll ex_company_filters ex_db) =
       Inr (map company_row
              [\<lparr>c_handle = ''c2'', c_name = ''C2'', c_description = ''Desc2'',
                c_num_employees = Some 2, c_logo_url = Some ''http://c2.img''\<rparr>,
               \<lparr>c_handle = ''c3'', c_name = ''C3'', c_description = ''Desc3'',
                c_num_employees = Some 3, c_logo_url = Some ''http://c3.img''\<rparr>])"
    by code_simp
  from Company_findAll_filters [OF h, of ex_db]
  have "\<exists>found. fst (Company_findAll ex_company_filters ex_db) = Inr (map company_row found)
          \<and> sorted (map c_name found)"
    by blast
  with h ev show ?thesis by blast
qed

text \<open>
  C3 as stated fails when \<open>nameLike\<close> holds a character that \<open>LIKE\<close> reads as a
  wildcard. With \<open>nameLike = "_"\<close> every company of the example store is returned, and
  none of their names contains an underscore.
\<close>

theorem Company_findAll_wildcard_counterexample:
  "fst (Company_findAll ex_wildcard_name ex_db) = Inr (map company_row (companies ex_db))
   \<and> companies ex_db \<noteq> []
   \<and> filter (company_satisfies ex_wildcard_name) (companies ex_db) = []"
  by code_simp

lemma select_jobs_issue [simp]:
  "select_jobs conds ps (issue q ps' db) = select_jobs conds ps db"
  by (simp add: select_jobs_def split: sum.splits)

lemma text_or_absent_cases:
  assumes "text_or_absent v"
  shows "v = JUndefined \<or> (\<exists>t. v = JStr t \<and> coerce TText v = Inr (SText t))"
  using assms by (cases v) (auto simp: text_or_absent_def)

lemma Job_findAll_rows:
  assumes "job_filters_typed f"
  shows "fst (Job_findAll f db) =
    Inr (map job_row (sort_key j_title (filter (job_satisfies f) (jobs db))))"
proof -
  from assms have
    a: "int_or_absent (js_get f ''minSalary'')" and
    b: "like_plain (js_get f ''titleLike'')" and
    c: "text_or_absent (js_get f ''title'')"
    by (simp_all add: job_filters_typed_def)
  have d: "has_equity_flag (js_get f ''hasEquity'') \<or> \<not> has_equity_flag (js_get f ''hasEquity'')"
    by simp
  show ?thesis
    using int_param_cases [OF a] like_plain_cases [OF b] text_or_absent_cases [OF c] d
    by (elim disjE exE conjE)
       (simp_all add: Job_findAll_def Let_def select_jobs_def typed_job_cond_def param_def
          job_satisfies_def [abs_def] at_least_def at_most_def text_contains_def title_is_def
          lower_like_contains has_equity_flag_def [symmetric] positive_equity_def)
qed

text \<open>
  C9, as amended. For every stored list of jobs and every filter object in which
  \<open>minSalary\<close>, when supplied, is an integer in the range of the database's 4-byte
  integers (a number, or a decimal string), \<open>title\<close>, when
  supplied, is a string without the character of code 0 and \<open>titleLike\<close>, when
  supplied, is such a string without the characters \<open>%\<close>, \<open>_\<close> and backslash,
  \<open>Job.findAll\<close> returns the rows of exactly the jobs that satisfy every supplied
  predicate (salary at least the minimum; positive equity, required exactly when the
  \<open>hasEquity\<close> flag is set; title equal to \<open>title\<close>; title containing \<open>titleLike\<close>
  when the case of ASCII letters is ignored), each as often as it is stored, in ascending
  order of title.
\<close>

theorem Job_findAll_filters:
  assumes "job_filters_typed f"
  shows "\<exists>found. fst (Job_findAll f db) = Inr (map job_row found)
           \<and> sorted (map j_title found)
           \<and> mset found = filter_mset (job_satisfies f) (mset (jobs db))"
proof -
  let ?found = "sort_key j_title (filter (job_satisfies f) (jobs db))"
  have "fst (Job_findAll f db) = Inr (map job_row ?found)"
    by (rule Job_findAll_rows [OF assms])
  moreover have "sorted (map j_title ?found)"
    by (rule sorted_sort_key)
  moreover have "mset ?found = filter_mset (job_satisfies f) (mset (jobs db))"
    by simp
  ultimately show ?thesis by blast
qed

theorem Job_findAll_filters_witness:
  "job_filters_typed ex_job_filters
   \<and> fst (Job_findAll ex_job_filters ex_db) =
       Inr (map job_row
              [\<lparr>j_id = 2, j_title = ''j2'', j_salary = Some 200000, j_equity = Some ''0.2'',
                j_company_handle = ''c2''\<rparr>])
   \<and> (\<exists>found. fst (Job_findAll ex_job_filters ex_db) = Inr (map job_row found)
          \<and> sorted (map j_title found))"
proof -
  have h: "job_filters_typed ex_job_filters"
    by code_simp
  have "sort_key j_title (filter (job_satisfies ex_job_filters) (jobs ex_db)) =
          [\<lparr>j_id = 2, j_title = ''j2'', j_salary = Some 200000, j_equity = Some ''0.2'',
            j_company_handle = ''c2''\<rparr>]"
    by code_simp
  with Job_findAll_rows [OF h, of ex_db]
  have ev: "fst (Job_findAll ex_job_filters ex_db) =
       Inr (map job_row
              [\<lparr>j_id = 2, j_title = ''j2'', j_salary = Some 200000, j_equity = Some ''0.2'',
                j_company_handle = ''c2''\<rparr>])"
    by simp
  from Job_findAll_filters [OF h, of ex_db]
  have "\<exists>found. fst (Job_findAll ex_job_filters ex_db) = Inr (map job_row found)
          \<and> sorted (map j_title found)"
    by blast
  with h ev show ?thesis by blast
qed

text \<open>
  C9 as stated fails in the same way: with \<open>titleLike = "_"\<close> every job of the example
  store is returned, and no title contains an underscore.
\<close>

theorem Job_findAll_wildcard_counterexample:
  "fst (Job_findAll ex_wildcard_title ex_db) = Inr (map job_row (jobs ex_db))
   \<and> jobs ex_db \<noteq> []
   \<and> filter (job_satisfies ex_wildcard_title) (jobs ex_db) = []"
  by code_simp

end
